theory Spec2Isabelle
  imports Main
begin

section \<open>Python control flow: exceptions, state and output\<close>

text \<open>
  The two source files, \<^verbatim>\<open>demo.py\<close> and \<^verbatim>\<open>frontend/app.py\<close>, are glue code around
  collaborators that live in other modules (\<^verbatim>\<open>database\<close>, \<^verbatim>\<open>rag_system\<close>,
  \<^verbatim>\<open>tariff_calculator\<close>, \<^verbatim>\<open>agent\<close>, \<^verbatim>\<open>agent_real_llm\<close>, Streamlit). Every call into
  a collaborator is a parameter of the model: a function from the state of the outside
  world to either an exception or a value, together with the new world. A call is
  assumed to come back, by returning or by raising.

  An exception is an instance of Python's \<^verbatim>\<open>Exception\<close>, which is what every handler of
  the source names. The classes the source or the interpreter tell apart are
  constructors; the argument is the text of \<^verbatim>\<open>str(e)\<close>, except for \<open>KeyError\<close>, whose
  argument is the key. \<^verbatim>\<open>KeyboardInterrupt\<close> and \<^verbatim>\<open>SystemExit\<close>, which ask the interpreter to
  leave and are not instances of \<^verbatim>\<open>Exception\<close>, are not modelled.
\<close>

datatype exc =
    ImportError string
  | KeyError string
  | AttributeError string
  | Exception string

fun str_exc :: "exc \<Rightarrow> string" where
  "str_exc (ImportError m) = m"
| "str_exc (KeyError k) = [CHR 0x27] @ k @ [CHR 0x27]"
| "str_exc (AttributeError m) = m"
| "str_exc (Exception m) = m"

fun is_ImportError :: "exc \<Rightarrow> bool" where
  "is_ImportError (ImportError m) = True"
| "is_ImportError e = False"

type_synonym ('s, 'a) prog = "'s \<Rightarrow> (exc + 'a) \<times> 's"

definition ret :: "'a \<Rightarrow> ('s, 'a) prog" where
  "ret v s = (Inr v, s)"

definition raise :: "exc \<Rightarrow> ('s, 'a) prog" where
  "raise e s = (Inl e, s)"

definition bnd :: "('s, 'a) prog \<Rightarrow> ('a \<Rightarrow> ('s, 'b) prog) \<Rightarrow> ('s, 'b) prog" where
  "bnd m f s = (case m s of (Inl e, s') \<Rightarrow> (Inl e, s') | (Inr v, s') \<Rightarrow> f v s')"

text \<open>\<^verbatim>\<open>try: m  except Exception as e: h(e)\<close>. What \<open>m\<close> did to the state before it
  raised stays done.\<close>

definition try_except :: "('s, 'a) prog \<Rightarrow> (exc \<Rightarrow> ('s, 'a) prog) \<Rightarrow> ('s, 'a) prog" where
  "try_except m h s = (case m s of (Inl e, s') \<Rightarrow> h e s' | (Inr v, s') \<Rightarrow> (Inr v, s'))"

text \<open>\<^verbatim>\<open>try: m  except ImportError: h\<close>. Any other exception goes on to the caller.\<close>

definition try_except_ImportError :: "('s, 'a) prog \<Rightarrow> ('s, 'a) prog \<Rightarrow> ('s, 'a) prog" where
  "try_except_ImportError m h s =
     (case m s of
        (Inl e, s') \<Rightarrow> if is_ImportError e then h s' else (Inl e, s')
      | (Inr v, s') \<Rightarrow> (Inr v, s'))"

text \<open>
  The state: the outside world, and what the program has written so far (log records,
  printed lines, Streamlit calls), oldest first. The pictographs that start many of the
  source's messages are left out of the strings.
\<close>

datatype level = INFO | WARNING | ERROR

datatype event =
    Log level string
  | Print string
  | St string string

record 'w pystate =
  world :: 'w
  out :: "event list"

definition emit :: "event \<Rightarrow> (('w, 'z) pystate_scheme, unit) prog" where
  "emit ev s = (Inr (), s\<lparr>out := out s @ [ev]\<rparr>)"

definition logger :: "level \<Rightarrow> string \<Rightarrow> (('w, 'z) pystate_scheme, unit) prog" where
  "logger lvl msg = emit (Log lvl msg)"

definition print :: "string \<Rightarrow> (('w, 'z) pystate_scheme, unit) prog" where
  "print line = emit (Print line)"

definition ext :: "('w \<Rightarrow> (exc + 'a) \<times> 'w) \<Rightarrow> (('w, 'z) pystate_scheme, 'a) prog" where
  "ext f s = (case f (world s) of (r, w') \<Rightarrow> (r, s\<lparr>world := w'\<rparr>))"

definition read_world :: "('w \<Rightarrow> 'a) \<Rightarrow> (('w, 'z) pystate_scheme, 'a) prog" where
  "read_world f s = (Inr (f (world s)), s)"

subsection \<open>Strings and dictionaries\<close>

text \<open>A character of a string stands for one character of the Python string, so that
  \<open>length\<close> is \<^verbatim>\<open>len\<close> and \<open>take n\<close> is the slice \<^verbatim>\<open>[:n]\<close>.\<close>

fun str_nat :: "nat \<Rightarrow> string" where
  "str_nat n =
     (if n < 10 then [''0123456789'' ! n]
      else str_nat (n div 10) @ [''0123456789'' ! (n mod 10)])"

fun join :: "string \<Rightarrow> string list \<Rightarrow> string" where
  "join sep [] = []"
| "join sep [x] = x"
| "join sep (x # y # ys) = x @ sep @ join sep (y # ys)"

definition ljust :: "nat \<Rightarrow> string \<Rightarrow> string" where
  "ljust n s = s @ replicate (n - length s) CHR '' ''"

text \<open>\<^verbatim>\<open>d[k]\<close> on a dictionary raises \<open>KeyError\<close> for a missing key.\<close>

definition getitem :: "(string \<rightharpoonup> 'v) \<Rightarrow> string \<Rightarrow> ('s, 'v) prog" where
  "getitem d k = (case d k of None \<Rightarrow> raise (KeyError k) | Some v \<Rightarrow> ret v)"

text \<open>\<^verbatim>\<open>d.get(k, default)\<close>.\<close>

definition dict_get :: "(string \<rightharpoonup> 'v) \<Rightarrow> string \<Rightarrow> 'v \<Rightarrow> 'v" where
  "dict_get d k dflt = (case d k of None \<Rightarrow> dflt | Some v \<Rightarrow> v)"

text \<open>A dictionary whose order of insertion matters: \<^verbatim>\<open>d[k] = v\<close> keeps the place of
  a key that is already there and puts a new key last.\<close>

fun dict_set :: "('k \<times> 'v) list \<Rightarrow> 'k \<Rightarrow> 'v \<Rightarrow> ('k \<times> 'v) list" where
  "dict_set [] k v = [(k, v)]"
| "dict_set ((k', v') # d) k v = (if k' = k then (k, v) # d else (k', v') # dict_set d k v)"

section \<open>demo.py\<close>

text \<open>
  What \<^verbatim>\<open>demo.py\<close> calls outside itself. \<open>import_module\<close> is an \<^verbatim>\<open>import\<close> statement
  (\<^verbatim>\<open>from m import a, b\<close> too) and \<open>path_exists\<close> is \<^verbatim>\<open>os.path.exists\<close>, which reads
  the world and does not raise; with \<open>setup_database\<close> they are what both source files
  call. The objects the constructors return (\<^verbatim>\<open>db\<close>,
  \<^verbatim>\<open>processor\<close>, \<^verbatim>\<open>rag\<close>, \<^verbatim>\<open>calculator\<close>, \<^verbatim>\<open>test_input\<close>, \<^verbatim>\<open>bot\<close>) live in the world; the
  arguments the source writes as constants are part of the call. A record of the
  database and the result of the retrieval system are dictionaries from strings to
  strings. The result of the calculator is \<^verbatim>\<open>None\<close> or an object, of which the model
  keeps the two amounts the source prints, as formatted by \<^verbatim>\<open>:,.2f\<close>.
\<close>

record tariff_result =
  total_landed_cost_2f :: string
  applicable_duty_amount_2f :: string

record 'w base_ext =
  import_module :: "string \<Rightarrow> 'w \<Rightarrow> (exc + unit) \<times> 'w"
  path_exists :: "'w \<Rightarrow> string \<Rightarrow> bool"
  setup_database :: "'w \<Rightarrow> (exc + bool) \<times> 'w"

record 'w demo_ext = "'w base_ext" +
  HTSDatabase :: "'w \<Rightarrow> (exc + unit) \<times> 'w"
  HTSDataProcessor :: "'w \<Rightarrow> (exc + unit) \<times> 'w"
  search_hts_codes :: "string \<Rightarrow> nat \<Rightarrow> 'w \<Rightarrow> (exc + (string \<rightharpoonup> string) list) \<times> 'w"
  close_connection :: "'w \<Rightarrow> (exc + unit) \<times> 'w"
  create_rag_system :: "'w \<Rightarrow> (exc + unit) \<times> 'w"
  rag_query :: "string \<Rightarrow> 'w \<Rightarrow> (exc + (string \<rightharpoonup> string)) \<times> 'w"
  HTSTariffCalculator :: "'w \<Rightarrow> (exc + unit) \<times> 'w"
  TariffInput :: "'w \<Rightarrow> (exc + unit) \<times> 'w"
  calculate_tariff :: "'w \<Rightarrow> (exc + tariff_result option) \<times> 'w"
  agent_create_tariff_bot :: "'w \<Rightarrow> (exc + unit) \<times> 'w"
  agent_bot_query :: "string \<Rightarrow> 'w \<Rightarrow> (exc + string) \<times> 'w"

subsection \<open>check_dependencies and check_data_files\<close>

definition check_dependencies :: "'w demo_ext \<Rightarrow> (('w, 'z) pystate_scheme, bool) prog" where
  "check_dependencies x =
     bnd (try_except_ImportError
            (bnd (ext (import_module x ''pandas'')) (\<lambda>_.
             bnd (logger INFO ''Pandas available'') (\<lambda>_. ret [])))
            (ret [''pandas''])) (\<lambda>missing_deps.
     bnd (try_except_ImportError
            (bnd (ext (import_module x ''sqlite3'')) (\<lambda>_.
             bnd (logger INFO ''SQLite3 available'') (\<lambda>_. ret missing_deps)))
            (ret (missing_deps @ [''sqlite3'']))) (\<lambda>missing_deps.
     bnd (try_except_ImportError
            (bnd (ext (import_module x ''streamlit'')) (\<lambda>_.
             bnd (logger INFO ''Streamlit available'') (\<lambda>_. ret missing_deps)))
            (ret (missing_deps @ [''streamlit'']))) (\<lambda>missing_deps.
     if missing_deps \<noteq> [] then
       bnd (logger ERROR (''Missing dependencies: '' @ join '', '' missing_deps)) (\<lambda>_.
       bnd (logger ERROR ''Please install with: pip install -r requirements.txt'') (\<lambda>_.
       ret False))
     else ret True)))"

definition required_files :: "string list" where
  "required_files = [''data/htsdata.csv'', ''data/GeneralNotes.pdf'']"

text \<open>The loop \<^verbatim>\<open>for file_path in required_files\<close>, with the list it fills.\<close>

fun collect_missing_files ::
  "'w demo_ext \<Rightarrow> string list \<Rightarrow> string list \<Rightarrow> (('w, 'z) pystate_scheme, string list) prog" where
  "collect_missing_files x [] missing_files = ret missing_files"
| "collect_missing_files x (file_path # rest) missing_files =
     bnd (read_world (\<lambda>w. path_exists x w file_path)) (\<lambda>there.
     collect_missing_files x rest
       (if \<not> there then missing_files @ [file_path] else missing_files))"

definition check_data_files :: "'w demo_ext \<Rightarrow> (('w, 'z) pystate_scheme, bool) prog" where
  "check_data_files x =
     bnd (collect_missing_files x required_files []) (\<lambda>missing_files.
     if missing_files \<noteq> [] then
       bnd (logger ERROR (''Missing data files: '' @ join '', '' missing_files)) (\<lambda>_.
       ret False)
     else
       bnd (logger INFO ''All required data files found'') (\<lambda>_.
       ret True))"

subsection \<open>The four component tests\<close>

text \<open>Each test is \<^verbatim>\<open>try: body  except Exception as e: log; return False\<close>. The body is
  a definition of its own, so that a theorem can speak of what the body does.\<close>

text \<open>The loop \<^verbatim>\<open>for result in results[:1]\<close>; the caller passes the slice.\<close>

fun log_found ::
  "(string \<rightharpoonup> string) list \<Rightarrow> (('w, 'z) pystate_scheme, unit) prog" where
  "log_found [] = ret ()"
| "log_found (result # rest) =
     bnd (getitem result ''hts_number'') (\<lambda>hts_number.
     bnd (getitem result ''description'') (\<lambda>description.
     bnd (logger INFO (''   Found: '' @ hts_number @ '' - '' @ take 50 description @ ''...'')) (\<lambda>_.
     log_found rest)))"

definition test_database_body :: "'w demo_ext \<Rightarrow> (('w, 'z) pystate_scheme, bool) prog" where
  "test_database_body x =
     bnd (logger INFO ''Testing database...'') (\<lambda>_.
     bnd (ext (import_module x ''database'')) (\<lambda>_.
     bnd (ext (setup_database x)) (\<lambda>success.
     if \<not> success then
       bnd (logger ERROR ''Database setup failed'') (\<lambda>_.
       ret False)
     else
       bnd (ext (HTSDatabase x)) (\<lambda>_.
       bnd (ext (HTSDataProcessor x)) (\<lambda>_.
       bnd (ext (search_hts_codes x ''asses'' 3)) (\<lambda>results.
       bnd (if results \<noteq> [] then
              bnd (logger INFO (''Database search working: found '' @ str_nat (length results)
                                 @ '' results for 'asses'' @ [CHR 0x27])) (\<lambda>_.
              log_found (take 1 results))
            else
              logger WARNING ''No search results found, but database is functional'') (\<lambda>_.
       bnd (ext (close_connection x)) (\<lambda>_.
       ret True))))))))"

definition test_database :: "'w demo_ext \<Rightarrow> (('w, 'z) pystate_scheme, bool) prog" where
  "test_database x =
     try_except (test_database_body x) (\<lambda>e.
       bnd (logger ERROR (''Database test failed: '' @ str_exc e)) (\<lambda>_.
       ret False))"

definition test_rag_system_body :: "'w demo_ext \<Rightarrow> (('w, 'z) pystate_scheme, bool) prog" where
  "test_rag_system_body x =
     bnd (logger INFO ''Testing RAG system...'') (\<lambda>_.
     bnd (ext (import_module x ''rag_system'')) (\<lambda>_.
     bnd (ext (create_rag_system x)) (\<lambda>_.
     bnd (ext (rag_query x ''What is the United States-Israel Free Trade Agreement?'')) (\<lambda>result.
     bnd (ret (dict_get result ''answer'' [])) (\<lambda>answer.
     bnd (if length answer > 50 then
            bnd (logger INFO (''RAG system working: '' @ str_nat (length answer)
                               @ '' character response'')) (\<lambda>_.
            logger INFO (''   Sample: '' @ take 100 answer @ ''...''))
          else
            logger WARNING ''RAG system returned short response, but is functional'') (\<lambda>_.
     ret True))))))"

definition test_rag_system :: "'w demo_ext \<Rightarrow> (('w, 'z) pystate_scheme, bool) prog" where
  "test_rag_system x =
     try_except (test_rag_system_body x) (\<lambda>e.
       bnd (logger ERROR (''RAG system test failed: '' @ str_exc e)) (\<lambda>_.
       ret False))"

definition test_tariff_calculator_body ::
  "'w demo_ext \<Rightarrow> (('w, 'z) pystate_scheme, bool) prog" where
  "test_tariff_calculator_body x =
     bnd (logger INFO ''Testing tariff calculator...'') (\<lambda>_.
     bnd (ext (import_module x ''tariff_calculator'')) (\<lambda>_.
     bnd (ext (HTSTariffCalculator x)) (\<lambda>_.
     bnd (ext (TariffInput x)) (\<lambda>_.
     bnd (ext (calculate_tariff x)) (\<lambda>result.
     bnd (case result of
            Some r \<Rightarrow>
              bnd (logger INFO (''Tariff calculator working: $'' @ total_landed_cost_2f r
                                 @ '' total cost'')) (\<lambda>_.
              logger INFO (''   Duty: $'' @ applicable_duty_amount_2f r))
          | None \<Rightarrow>
              logger WARNING ''Tariff calculator returned no result'') (\<lambda>_.
     ret True))))))"

definition test_tariff_calculator ::
  "'w demo_ext \<Rightarrow> (('w, 'z) pystate_scheme, bool) prog" where
  "test_tariff_calculator x =
     try_except (test_tariff_calculator_body x) (\<lambda>e.
       bnd (logger ERROR (''Tariff calculator test failed: '' @ str_exc e)) (\<lambda>_.
       ret False))"

definition test_queries :: "string list" where
  "test_queries =
     [''What is the United States-Israel Free Trade Agreement?'',
      ''What's the HTS code for donkeys?'',
      ''How is classification determined for manufacturing items?'']"

text \<open>The loop \<^verbatim>\<open>for query in test_queries: ... break  else: ...\<close>: the \<^verbatim>\<open>else\<close> of a
  \<^verbatim>\<open>for\<close> runs when the list is used up without a \<^verbatim>\<open>break\<close>.\<close>

fun query_loop :: "'w demo_ext \<Rightarrow> string list \<Rightarrow> (('w, 'z) pystate_scheme, unit) prog" where
  "query_loop x [] = logger WARNING ''Agent responses are short, but functional''"
| "query_loop x (query # rest) =
     bnd (ext (agent_bot_query x query)) (\<lambda>response.
     if length response > 50 then
       bnd (logger INFO (''Agent query working: '' @ str_nat (length response)
                          @ '' character response'')) (\<lambda>_.
       bnd (logger INFO (''   Query: '' @ query)) (\<lambda>_.
       logger INFO (''   Sample: '' @ take 100 response @ ''...'')))
     else query_loop x rest)"

definition test_agent_body :: "'w demo_ext \<Rightarrow> (('w, 'z) pystate_scheme, bool) prog" where
  "test_agent_body x =
     bnd (logger INFO ''Testing TariffBot agent...'') (\<lambda>_.
     bnd (ext (import_module x ''agent'')) (\<lambda>_.
     bnd (ext (agent_create_tariff_bot x)) (\<lambda>_.
     bnd (query_loop x test_queries) (\<lambda>_.
     ret True))))"

definition test_agent :: "'w demo_ext \<Rightarrow> (('w, 'z) pystate_scheme, bool) prog" where
  "test_agent x =
     try_except (test_agent_body x) (\<lambda>e.
       bnd (logger ERROR (''Agent test failed: '' @ str_exc e)) (\<lambda>_.
       ret False))"

subsection \<open>run_comprehensive_demo\<close>

definition tests ::
  "'w demo_ext \<Rightarrow> (string \<times> (('w, 'z) pystate_scheme, bool) prog) list" where
  "tests x =
     [(''Database'', test_database x),
      (''RAG System'', test_rag_system x),
      (''Tariff Calculator'', test_tariff_calculator x),
      (''TariffBot Agent'', test_agent x)]"

text \<open>The loop \<^verbatim>\<open>for test_name, test_func in tests\<close>, with the dictionary it fills.\<close>

fun run_tests ::
  "(string \<times> (('w, 'z) pystate_scheme, bool) prog) list \<Rightarrow> (string \<times> bool) list \<Rightarrow>
   (('w, 'z) pystate_scheme, (string \<times> bool) list) prog" where
  "run_tests [] results = ret results"
| "run_tests ((test_name, test_func) # rest) results =
     bnd (try_except
            (bnd test_func (\<lambda>r. ret (dict_set results test_name r)))
            (\<lambda>e. bnd (logger ERROR (test_name @ '' test crashed: '' @ str_exc e)) (\<lambda>_.
                 ret (dict_set results test_name False)))) (\<lambda>results.
     run_tests rest results)"

text \<open>The loop \<^verbatim>\<open>for test_name, passed in results.items()\<close>.\<close>

fun print_results :: "(string \<times> bool) list \<Rightarrow> (('w, 'z) pystate_scheme, unit) prog" where
  "print_results [] = ret ()"
| "print_results ((test_name, passed) # rest) =
     bnd (ret (if passed then ''PASS'' else ''FAIL'')) (\<lambda>status.
     bnd (print (ljust 20 test_name @ '' '' @ status)) (\<lambda>_.
     print_results rest))"

text \<open>\<^verbatim>\<open>sum(results.values())\<close>: \<^verbatim>\<open>True\<close> counts 1 and \<^verbatim>\<open>False\<close> counts 0.\<close>

definition sum_values :: "(string \<times> bool) list \<Rightarrow> nat" where
  "sum_values results = sum_list (map (\<lambda>(k, v). if v then 1 else 0) results)"

text \<open>The last part of \<^verbatim>\<open>run_comprehensive_demo\<close>, from the comment \<^verbatim>\<open># Summary\<close> to the
  \<^verbatim>\<open>return\<close>.\<close>

definition summary :: "(string \<times> bool) list \<Rightarrow> (('w, 'z) pystate_scheme, bool) prog" where
  "summary results =
     bnd (print (CHR 0x0A # replicate 50 CHR ''='')) (\<lambda>_.
     bnd (print ''Test Results Summary:'') (\<lambda>_.
     bnd (print (replicate 50 CHR ''='')) (\<lambda>_.
     bnd (print_results results) (\<lambda>_.
     bnd (ret (sum_values results)) (\<lambda>passed_tests.
     bnd (ret (length results)) (\<lambda>total_tests.
     bnd (print (CHR 0x0A # ''Overall: '' @ str_nat passed_tests @ ''/'' @ str_nat total_tests
                  @ '' tests passed'')) (\<lambda>_.
     bnd (if passed_tests = total_tests then
            bnd (print (CHR 0x0A # ''All tests passed! HTS AI Agent is fully functional.'')) (\<lambda>_.
            bnd (print (CHR 0x0A # ''To run the web interface:'')) (\<lambda>_.
            print ''streamlit run frontend/app.py''))
          else if passed_tests > 0 then
            bnd (print (CHR 0x0A # str_nat passed_tests @ '' out of '' @ str_nat total_tests
                         @ '' components working.'')) (\<lambda>_.
            bnd (print ''The system will use fallback responses for failed components.'') (\<lambda>_.
            bnd (print (CHR 0x0A # ''To run the web interface:'')) (\<lambda>_.
            print ''streamlit run frontend/app.py'')))
          else
            print (CHR 0x0A # ''All tests failed. Please check the error messages above.'')) (\<lambda>_.
     ret (passed_tests > 0)))))))))"

definition run_comprehensive_demo ::
  "'w demo_ext \<Rightarrow> (('w, 'z) pystate_scheme, bool) prog" where
  "run_comprehensive_demo x =
     bnd (print ''HTS AI Agent - Comprehensive Demo'') (\<lambda>_.
     bnd (print (replicate 50 CHR ''='')) (\<lambda>_.
     bnd (check_dependencies x) (\<lambda>deps_ok.
     if \<not> deps_ok then
       bnd (print ''Dependency check failed. Please install required packages.'') (\<lambda>_.
       ret False)
     else
     bnd (check_data_files x) (\<lambda>files_ok.
     if \<not> files_ok then
       bnd (print ''Data file check failed. Please ensure data files are present.'') (\<lambda>_.
       ret False)
     else
     bnd (run_tests (tests x) []) (\<lambda>results.
     summary results)))))"

section \<open>frontend/app.py\<close>

text \<open>
  The Streamlit script runs from top to bottom once for every interaction of the user.
  One run is one call of \<open>main\<close>; what the user did is the input of the run: the mode
  selected in the sidebar, the text submitted to the chat input (\<^verbatim>\<open>None\<close> when nothing
  was submitted), and which of the sample buttons was pressed. The session state
  (\<^verbatim>\<open>st.session_state.messages\<close>) and the cache of \<^verbatim>\<open>@st.cache_resource\<close> outlive the
  run, so they are fields of the state. A Streamlit call is an event \<open>St name text\<close>;
  what an input widget returns comes from the input of the run. The markup of the page
  and its long static texts are shortened.
\<close>

record message =
  role :: string
  content :: string

record ('w, 'b) appstate = "'w pystate" +
  messages :: "message list option"
  bot_cache :: "('b option \<times> string option) option"

record ('w, 'b) app_ext = "'w base_ext" +
  getenv :: "'w \<Rightarrow> string \<Rightarrow> string option"
  create_tariff_bot :: "'w \<Rightarrow> (exc + 'b) \<times> 'w"
  bot_query :: "'b \<Rightarrow> string \<Rightarrow> 'w \<Rightarrow> (exc + string) \<times> 'w"

record ui_input =
  selected_mode :: string
  chat_input :: "string option"
  button :: "nat \<Rightarrow> bool"

datatype run_end = Completed | Stopped

definition st :: "string \<Rightarrow> string \<Rightarrow> (('w, 'z) pystate_scheme, unit) prog" where
  "st name text = emit (St name text)"

text \<open>Python's truth value of a string or \<^verbatim>\<open>None\<close>, and its text inside an f-string.\<close>

fun truthy :: "string option \<Rightarrow> bool" where
  "truthy None = False"
| "truthy (Some s) = (s \<noteq> [])"

fun str_opt :: "string option \<Rightarrow> string" where
  "str_opt None = ''None''"
| "str_opt (Some s) = s"

definition response_box :: "string \<Rightarrow> string" where
  \<open>response_box response = ''<div class="response-box">'' @ response @ ''</div>''\<close>

subsection \<open>initialize_bot and check_openai_setup\<close>

definition initialize_bot_body ::
  "('w, 'b) app_ext \<Rightarrow> (('w, 'z) pystate_scheme, 'b option \<times> string option) prog" where
  "initialize_bot_body x =
     try_except
       (bnd (ext (import_module x ''agent_real_llm'')) (\<lambda>_.
        bnd (ext (import_module x ''database'')) (\<lambda>_.
        bnd (read_world (\<lambda>w. path_exists x w ''data/hts_data.db'')) (\<lambda>there.
        bnd (if \<not> there then
               bnd (st ''spinner'' ''Setting up database for first time use...'') (\<lambda>_.
               bnd (ext (setup_database x)) (\<lambda>_.
               ret ()))
             else ret ()) (\<lambda>_.
        bnd (st ''spinner'' ''Initializing TariffBot with LLM...'') (\<lambda>_.
        bnd (ext (create_tariff_bot x)) (\<lambda>bot.
        ret (Some bot, None))))))))
       (\<lambda>e. ret (None, Some (str_exc e)))"

text \<open>\<^verbatim>\<open>@st.cache_resource\<close>: the body runs when the cache is empty, and what it returns
  is kept and returned by every later call.\<close>

definition initialize_bot ::
  "('w, 'b) app_ext \<Rightarrow> (('w, 'b, 'z) appstate_scheme, 'b option \<times> string option) prog" where
  "initialize_bot x s =
     (case bot_cache s of
        Some r \<Rightarrow> (Inr r, s)
      | None \<Rightarrow>
          (case initialize_bot_body x s of
             (Inr r, s') \<Rightarrow> (Inr r, s'\<lparr>bot_cache := Some r\<rparr>)
           | (Inl e, s') \<Rightarrow> (Inl e, s')))"

definition check_openai_setup ::
  "('w, 'b) app_ext \<Rightarrow> (('w, 'z) pystate_scheme, bool) prog" where
  "check_openai_setup x =
     bnd (read_world (\<lambda>w. getenv x w ''OPENAI_API_KEY'')) (\<lambda>api_key.
     ret (api_key \<noteq> None))"

subsection \<open>chat_interface\<close>

text \<open>\<^verbatim>\<open>bot.query(prompt)\<close> (the variable is written \<open>bot'\<close>, since \<open>bot\<close> is a
  constant of the logic): \<open>bot\<close> is \<^verbatim>\<open>None\<close> when \<open>initialize_bot\<close> returned its second
  form, and \<^verbatim>\<open>None\<close> has no attribute \<^verbatim>\<open>query\<close>.\<close>

definition query ::
  "('w, 'b) app_ext \<Rightarrow> 'b option \<Rightarrow> string \<Rightarrow> (('w, 'z) pystate_scheme, string) prog" where
  "query x bot' prompt =
     (case bot' of
        None \<Rightarrow> raise (AttributeError (CHR 0x27 # ''NoneType' object has no attribute 'query'' @ [CHR 0x27]))
      | Some b \<Rightarrow> ext (bot_query x b prompt))"

text \<open>\<^verbatim>\<open>st.session_state.messages.append(m)\<close>.\<close>

definition append_message :: "message \<Rightarrow> (('w, 'b, 'z) appstate_scheme, unit) prog" where
  "append_message m s =
     (case messages s of
        None \<Rightarrow> (Inl (AttributeError ''st.session_state has no attribute messages''), s)
      | Some ms \<Rightarrow> (Inr (), s\<lparr>messages := Some (ms @ [m])\<rparr>))"

text \<open>The loop \<^verbatim>\<open>for message in st.session_state.messages\<close>.\<close>

fun show_messages :: "message list \<Rightarrow> (('w, 'z) pystate_scheme, unit) prog" where
  "show_messages [] = ret ()"
| "show_messages (m # rest) =
     bnd (st ''chat_message'' (role m)) (\<lambda>_.
     bnd (if role m = ''assistant'' then st ''markdown'' (response_box (content m))
          else st ''markdown'' (content m)) (\<lambda>_.
     show_messages rest))"

definition chat_interface ::
  "('w, 'b) app_ext \<Rightarrow> 'b option \<Rightarrow> bool \<Rightarrow> ui_input \<Rightarrow>
   (('w, 'b, 'z) appstate_scheme, unit) prog" where
  "chat_interface x bot' has_openai inp =
     bnd (st ''header'' ''Chat with TariffBot'') (\<lambda>_.
     bnd (if has_openai then
            st ''success'' ''Using OpenAI LLM for intelligent responses from HTS General Notes''
          else
            st ''warning''
              ''Using basic text extraction (set OPENAI_API_KEY for full LLM functionality)'') (\<lambda>_.
     bnd (st ''write''
            ''Ask me anything about HTS tariffs, trade agreements, or duty calculations!'') (\<lambda>_.
     bnd (\<lambda>s. if messages s = None then (Inr (), s\<lparr>messages := Some []\<rparr>) else (Inr (), s)) (\<lambda>_.
     bnd (\<lambda>s. (Inr (case messages s of None \<Rightarrow> [] | Some ms \<Rightarrow> ms), s)) (\<lambda>shown.
     bnd (show_messages shown) (\<lambda>_.
     bnd (st ''chat_input'' ''Ask about HTS codes, tariffs, or trade agreements...'') (\<lambda>_.
     if truthy (chat_input inp) then
       bnd (ret (str_opt (chat_input inp))) (\<lambda>prompt.
       bnd (append_message \<lparr>role = ''user'', content = prompt\<rparr>) (\<lambda>_.
       bnd (st ''chat_message'' ''user'') (\<lambda>_.
       bnd (st ''markdown'' prompt) (\<lambda>_.
       bnd (st ''chat_message'' ''assistant'') (\<lambda>_.
       bnd (st ''spinner'' (if has_openai then ''Generating response with LLM...''
                            else ''Processing with text extraction...'')) (\<lambda>_.
       bnd (try_except (query x bot' prompt) (\<lambda>e.
              ret (''I encountered an error processing your question: '' @ str_exc e))) (\<lambda>response.
       bnd (st ''markdown'' (response_box response)) (\<lambda>_.
       append_message \<lparr>role = ''assistant'', content = response\<rparr>))))))))
     else ret ())))))))"

subsection \<open>sample_questions_interface\<close>

record sample =
  question :: string
  category :: string
  description :: string

definition sample_questions :: "sample list" where
  "sample_questions =
     [\<lparr>question = ''What is the United States-Israel Free Trade Agreement?'',
       category = ''Trade Agreements'',
       description = ''LLM will analyze HTS General Notes to explain the 1985 FTA''\<rparr>,
      \<lparr>question = ''Can a product that exceeds its tariff-rate quota still qualify for duty-free entry under GSP?'',
       category = ''Trade Policy'',
       description = ''LLM will explain the relationship between TRQs and GSP from official documentation''\<rparr>,
      \<lparr>question = ''How is classification determined for an imported item used in manufacturing?'',
       category = ''Classification'',
       description = ''LLM will extract and explain HTS classification rules from the PDF''\<rparr>,
      \<lparr>question = ''What's the HTS code for donkeys?'',
       category = ''HTS Search'',
       description = ''Database search for specific animal classifications''\<rparr>,
      \<lparr>question = ''Calculate tariff for HTS code 0101.30.00.00 with cost $10,000'',
       category = ''Tariff Calculation'',
       description = ''Real tariff calculation with duty rate parsing''\<rparr>]"

text \<open>The loop \<^verbatim>\<open>for i, item in enumerate(sample_questions)\<close>; \<open>i\<close> is the index of the
  first item of the list that is left.\<close>

fun sample_loop ::
  "('w, 'b) app_ext \<Rightarrow> 'b option \<Rightarrow> bool \<Rightarrow> ui_input \<Rightarrow> nat \<Rightarrow> sample list \<Rightarrow>
   (('w, 'z) pystate_scheme, unit) prog" where
  "sample_loop x bot' has_openai inp i [] = ret ()"
| "sample_loop x bot' has_openai inp i (item # rest) =
     bnd (st ''expander'' (category item @ '': '' @ question item)) (\<lambda>_.
     bnd (st ''write'' (''**How it works:** '' @ description item)) (\<lambda>_.
     bnd (st ''button'' ''Ask this question'') (\<lambda>_.
     bnd (if button inp i then
            bnd (st ''spinner'' (if has_openai then ''Generating LLM response...''
                                 else ''Processing...'')) (\<lambda>_.
            bnd (try_except (query x bot' (question item)) (\<lambda>e.
                   ret (''Error: '' @ str_exc e))) (\<lambda>response.
            bnd (st ''markdown'' (response_box response)) (\<lambda>_.
            if has_openai then
              st ''info'' ''Response generated using OpenAI LLM with HTS General Notes content''
            else
              st ''info'' ''Response generated using basic text extraction'')))
          else ret ()) (\<lambda>_.
     sample_loop x bot' has_openai inp (Suc i) rest))))"

definition sample_questions_interface ::
  "('w, 'b) app_ext \<Rightarrow> 'b option \<Rightarrow> bool \<Rightarrow> ui_input \<Rightarrow>
   (('w, 'z) pystate_scheme, unit) prog" where
  "sample_questions_interface x bot' has_openai inp =
     bnd (st ''header'' ''Sample Questions'') (\<lambda>_.
     bnd (if has_openai then
            st ''success''
              ''These questions will be answered using OpenAI LLM with HTS General Notes content''
          else
            st ''warning'' ''These questions will be answered using basic text extraction'') (\<lambda>_.
     bnd (st ''write'' ''Try these sample questions to see TariffBot's LLM capabilities:'') (\<lambda>_.
     sample_loop x bot' has_openai inp 0 sample_questions)))"

subsection \<open>The static pages and main\<close>

definition setup_guide_interface ::
  "('w, 'b) app_ext \<Rightarrow> (('w, 'z) pystate_scheme, unit) prog" where
  "setup_guide_interface x =
     bnd (st ''header'' ''Setup Guide for Full LLM Functionality'') (\<lambda>_.
     bnd (st ''markdown'' ''### Step 1: Get OpenAI API Key ...'') (\<lambda>_.
     bnd (check_openai_setup x) (\<lambda>has_openai.
     if has_openai then
       st ''success'' ''OpenAI API Key is configured! You're getting full LLM functionality.''
     else
       st ''warning''
         ''OpenAI API Key not found. Follow the steps above to enable full LLM functionality.'')))"

definition about_interface :: "(('w, 'z) pystate_scheme, unit) prog" where
  "about_interface =
     bnd (st ''header'' ''About TariffBot with Real LLM'') (\<lambda>_.
     st ''markdown'' ''**TariffBot** uses real Large Language Models (LLMs) ...'')"

definition main ::
  "('w, 'b) app_ext \<Rightarrow> ui_input \<Rightarrow> (('w, 'b, 'z) appstate_scheme, run_end) prog" where
  "main x inp =
     bnd (st ''markdown'' ''TariffBot'') (\<lambda>_.
     bnd (st ''markdown'' ''Intelligent Assistant with Real LLM Responses'') (\<lambda>_.
     bnd (check_openai_setup x) (\<lambda>has_openai.
     bnd (if has_openai then
            st ''markdown'' ''OpenAI API Key Detected - Full LLM functionality enabled''
          else
            st ''markdown''
              ''OpenAI API Key Not Found ... The system will use basic text extraction as fallback.'') (\<lambda>_.
     bnd (initialize_bot x) (\<lambda>(bot', error).
     if truthy error then
       bnd (st ''error'' (''Failed to initialize TariffBot: '' @ str_opt error)) (\<lambda>_.
       bnd (st ''stop'' []) (\<lambda>_.
       ret Stopped))
     else
     bnd (st ''sidebar.title'' ''Navigation'') (\<lambda>_.
     bnd (st ''sidebar.selectbox'' ''Choose Mode'') (\<lambda>_.
     bnd (ret (selected_mode inp)) (\<lambda>mode.
     bnd (if mode = ''Chat with TariffBot'' then chat_interface x bot' has_openai inp
          else if mode = ''Sample Questions'' then sample_questions_interface x bot' has_openai inp
          else if mode = ''Setup Guide'' then setup_guide_interface x
          else if mode = ''About'' then about_interface
          else ret ()) (\<lambda>_.
     ret Completed)))))))))"

section \<open>The orchestrator and the generator wrapper of the specification\<close>

text \<open>
  The bot behind \<^verbatim>\<open>bot.query\<close> is made by \<^verbatim>\<open>create_tariff_bot\<close> of the modules \<^verbatim>\<open>agent\<close>
  and \<^verbatim>\<open>agent_real_llm\<close>, which the two source files import and do not contain. What the
  specification says of its routing and of its calls to the Answer Generator is modelled
  here from the specification's sections 3, 4.1, 4.3 and 6.
\<close>

text \<open>Modelled from the spec: the answer and the tariff record of the data model of
  section 3, which the missing modules \<^verbatim>\<open>agent\<close> and \<^verbatim>\<open>agent_real_llm\<close> would declare.\<close>

datatype provenance = database | generated | fallback

record Answer =
  "text" :: string
  provenance :: provenance

record CandidateRecord =
  code :: string
  description_text :: string
  duty_rate :: string

text \<open>Modelled from the spec: a retrieved passage of section 3, a type of the missing
  modules; the retriever returns passages in the order of their
  relevance score, best first, and the score itself is not kept.\<close>

record RetrievedPassage =
  passage_text :: string
  source_offset :: nat

text \<open>Modelled from the spec: the ways a call to the Answer Generator fails (section
  4.1, step 4, and 4.3), which the missing wrapper tells apart: a
  network error and a timeout are transient, an authentication and a quota error are
  terminal for the request.\<close>

datatype gen_failure = NetworkError | Timeout | AuthenticationError | QuotaError

fun transient :: "gen_failure \<Rightarrow> bool" where
  "transient NetworkError = True"
| "transient Timeout = True"
| "transient AuthenticationError = False"
| "transient QuotaError = False"

text \<open>
  Modelled from the spec: the collaborators of section 6 and the constants the
  specification leaves to configuration, which the missing modules would hold. The
  generator is a remote service with a state \<open>'g\<close> of its own; a call
  that outlasts the request timeout comes back as \<open>Timeout\<close>. \<open>structured_lookup\<close> is
  the routing pattern of step 1, which the specification leaves open.
\<close>

record 'g collaborators =
  structured_lookup :: "string \<Rightarrow> bool"
  search :: "string \<Rightarrow> nat \<Rightarrow> CandidateRecord list"
  compose :: "CandidateRecord list \<Rightarrow> string"
  retrieve :: "string \<Rightarrow> nat \<Rightarrow> RetrievedPassage list"
  generate :: "string \<Rightarrow> string \<Rightarrow> 'g \<Rightarrow> (gen_failure + string) \<times> 'g"
  search_limit :: nat
  top_k :: nat
  max_context :: nat
  min_length :: nat

text \<open>Modelled from the spec: the state of a request of the missing wrapper, which is
  the generator's state and the number of calls issued to the generator so far.\<close>

type_synonym 'g gen_state = "'g \<times> nat"

text \<open>Modelled from the spec: one call to the Answer Generator, counted. The generator
  itself is a collaborator outside the repository.\<close>

definition call_generator ::
  "'g collaborators \<Rightarrow> string \<Rightarrow> string \<Rightarrow> 'g gen_state \<Rightarrow> (gen_failure + string) \<times> 'g gen_state" where
  "call_generator c q context gs =
     (case gs of (g, calls) \<Rightarrow>
        (case generate c q context g of (r, g') \<Rightarrow> (r, (g', Suc calls))))"

text \<open>Modelled from the spec: the generator invocation wrapper of section 4.3, which is
  part of the missing module \<^verbatim>\<open>agent_real_llm\<close>. The passages sent are cut to the size
  limit; a transient failure is retried once, a terminal failure is not retried.\<close>

definition generator_wrapper ::
  "'g collaborators \<Rightarrow> string \<Rightarrow> RetrievedPassage list \<Rightarrow> 'g gen_state \<Rightarrow>
   (gen_failure + string) \<times> 'g gen_state" where
  "generator_wrapper c q passages gs =
     (let context = take (max_context c) (concat (map passage_text passages)) in
      case call_generator c q context gs of
        (Inr t, gs') \<Rightarrow> (Inr t, gs')
      | (Inl f, gs') \<Rightarrow>
          if transient f then call_generator c q context gs' else (Inl f, gs'))"

text \<open>Modelled from the spec: steps 2 to 4 of the routing policy of section 4.1 (the
  informational path), part of the missing module \<^verbatim>\<open>agent_real_llm\<close>.\<close>

definition informational ::
  "'g collaborators \<Rightarrow> string \<Rightarrow> 'g gen_state \<Rightarrow> Answer \<times> 'g gen_state" where
  "informational c q gs =
     (let passages = take (top_k c) (retrieve c q (top_k c));
          local_fallback =
            (case passages of
               p # _ \<Rightarrow> \<lparr>text = passage_text p, provenance = fallback\<rparr>
             | [] \<Rightarrow> \<lparr>text = ''unable to find information'', provenance = fallback\<rparr>)
      in case generator_wrapper c q passages gs of
           (Inr t, gs') \<Rightarrow>
             if length t < min_length c then (local_fallback, gs')
             else (\<lparr>text = t, provenance = generated\<rparr>, gs')
         | (Inl f, gs') \<Rightarrow> (local_fallback, gs'))"

text \<open>Modelled from the spec: the entry point \<^verbatim>\<open>answer(query)\<close> of section 4.1, part of
  the missing module \<^verbatim>\<open>agent_real_llm\<close>. Step 1 routes a structured lookup to the
  Database Accessor and falls through to step 2 when no record matches.\<close>

definition answer ::
  "'g collaborators \<Rightarrow> string \<Rightarrow> 'g gen_state \<Rightarrow> Answer \<times> 'g gen_state" where
  "answer c q gs =
     (if structured_lookup c q then
        (case search c q (search_limit c) of
           [] \<Rightarrow> informational c q gs
         | r # rs \<Rightarrow> (\<lparr>text = compose c (r # rs), provenance = database\<rparr>, gs))
      else informational c q gs)"

section \<open>Auxiliary functions and concrete collaborators\<close>

text \<open>What the theorems need to speak of the output: whether an event is a log record,
  and the events that showing a transcript draws.\<close>

fun is_Log :: "event \<Rightarrow> bool" where
  "is_Log (Log lvl msg) = True"
| "is_Log ev = False"

fun shown :: "message list \<Rightarrow> event list" where
  "shown [] = []"
| "shown (m # ms) =
     [St ''chat_message'' (role m),
      St ''markdown'' (if role m = ''assistant'' then response_box (content m) else content m)]
     @ shown ms"

text \<open>
  Concrete collaborators, on which the theorems are run. The world is the number of
  calls made so far. \<open>demo_with imports files\<close> is an installation where the import of
  module \<open>m\<close> ends as \<open>imports m\<close> and the file \<open>p\<close> exists when \<open>files p\<close>; the
  database finds nothing, the retrieval system and the agent give short answers and the
  calculator gives no result. \<open>app_with created reply\<close> is an installation without an
  API key where \<^verbatim>\<open>create_tariff_bot()\<close> ends as \<open>created\<close> and \<^verbatim>\<open>bot.query(q)\<close> as
  \<open>reply q\<close>.
\<close>

definition demo_with :: "(string \<Rightarrow> exc + unit) \<Rightarrow> (string \<Rightarrow> bool) \<Rightarrow> nat demo_ext" where
  "demo_with imports files =
     \<lparr>import_module = (\<lambda>m w. (imports m, Suc w)),
      path_exists = (\<lambda>w p. files p),
      setup_database = (\<lambda>w. (Inr True, Suc w)),
      HTSDatabase = (\<lambda>w. (Inr (), Suc w)),
      HTSDataProcessor = (\<lambda>w. (Inr (), Suc w)),
      search_hts_codes = (\<lambda>q limit w. (Inr [], Suc w)),
      close_connection = (\<lambda>w. (Inr (), Suc w)),
      create_rag_system = (\<lambda>w. (Inr (), Suc w)),
      rag_query = (\<lambda>q w. (Inr [''answer'' \<mapsto> ''A 1985 agreement.''], Suc w)),
      HTSTariffCalculator = (\<lambda>w. (Inr (), Suc w)),
      TariffInput = (\<lambda>w. (Inr (), Suc w)),
      calculate_tariff = (\<lambda>w. (Inr None, Suc w)),
      agent_create_tariff_bot = (\<lambda>w. (Inr (), Suc w)),
      agent_bot_query = (\<lambda>q w. (Inr ''Free of duty.'', Suc w))\<rparr>"

definition installed :: "string \<Rightarrow> exc + unit" where
  "installed m = Inr ()"

definition not_installed :: "string \<Rightarrow> exc + unit" where
  "not_installed m = Inl (ImportError (''No module named '' @ m))"

definition start :: "nat pystate" where
  "start = \<lparr>world = 0, out = []\<rparr>"

definition app_with :: "(exc + unit) \<Rightarrow> (string \<Rightarrow> exc + string) \<Rightarrow> (nat, unit) app_ext" where
  "app_with created reply =
     \<lparr>import_module = (\<lambda>m w. (Inr (), Suc w)),
      path_exists = (\<lambda>w p. True),
      setup_database = (\<lambda>w. (Inr True, Suc w)),
      getenv = (\<lambda>w k. None),
      create_tariff_bot = (\<lambda>w. (created, Suc w)),
      bot_query = (\<lambda>b q w. (reply q, Suc w))\<rparr>"

definition fresh :: "(nat, unit) appstate" where
  "fresh = \<lparr>world = 0, out = [], messages = None, bot_cache = None\<rparr>"

definition ask :: "string \<Rightarrow> ui_input" where
  "ask q = \<lparr>selected_mode = ''Chat with TariffBot'', chat_input = Some q, button = (\<lambda>i. False)\<rparr>"

definition press :: "nat \<Rightarrow> ui_input" where
  "press i = \<lparr>selected_mode = ''Sample Questions'', chat_input = None, button = (\<lambda>j. j = i)\<rparr>"

text \<open>Collaborators of the orchestrator: every query is a structured lookup, the catalog
  matches nothing, the retriever has one passage, and the generator answers its \<open>n\<close>-th
  call with the \<open>n\<close>-th entry of a script (its state is the number of calls it has
  seen).\<close>

definition scripted :: "(gen_failure + string) list \<Rightarrow> nat collaborators" where
  "scripted script =
     \<lparr>structured_lookup = (\<lambda>q. True),
      search = (\<lambda>q limit. []),
      compose = (\<lambda>rs. concat (map code rs)),
      retrieve = (\<lambda>q k. take k [\<lparr>passage_text = ''General Note 3'', source_offset = 0\<rparr>]),
      generate = (\<lambda>q context g. (if g < length script then script ! g else Inl NetworkError, Suc g)),
      search_limit = 3,
      top_k = 3,
      max_context = 1000,
      min_length = 5\<rparr>"

section \<open>Laws of the control flow\<close>

lemmas prog_defs = bnd_def ret_def raise_def try_except_def try_except_ImportError_def
  Spec2Isabelle.ext_def read_world_def logger_def print_def emit_def

lemma bnd_emit: "bnd (emit ev) f s = f () (s\<lparr>out := out s @ [ev]\<rparr>)"
  by (simp add: bnd_def emit_def)

lemma bnd_Inr: "m s = (Inr v, s') \<Longrightarrow> bnd m f s = f v s'"
  by (simp add: bnd_def)

lemma bnd_Inl: "m s = (Inl e, s') \<Longrightarrow> bnd m f s = (Inl e, s')"
  by (simp add: bnd_def)

lemma bnd_assoc: "bnd (bnd m f) g = bnd m (\<lambda>v. bnd (f v) g)"
  by (rule ext) (simp add: bnd_def split: prod.split sum.split)

lemma bnd_ret: "bnd (ret v) f = f v"
  by (rule ext) (simp add: bnd_def ret_def)

text \<open>A \<^verbatim>\<open>try\<close> whose handler always returns, always returns.\<close>

lemma try_except_returns:
  assumes "\<And>e s. \<exists>v s'. h e s = (Inr v, s')"
  shows "\<exists>v s'. try_except m h s = (Inr v, s')"
proof (cases "m s")
  case (Pair r s1)
  show ?thesis
  proof (cases r)
    case (Inl e)
    with Pair assms [of e s1] show ?thesis by (auto simp: try_except_def)
  next
    case (Inr v)
    with Pair show ?thesis by (simp add: try_except_def)
  qed
qed

text \<open>A sequence whose continuation never returns \<open>b\<close>, never returns \<open>b\<close>.\<close>

lemma bnd_never:
  assumes "\<And>v s'. fst (f v s') \<noteq> Inr b"
  shows "fst (bnd m f s) \<noteq> Inr b"
proof (cases "m s")
  case (Pair r s1)
  then show ?thesis using assms by (cases r) (simp_all add: bnd_def)
qed

section \<open>Properties of demo.py\<close>

subsection \<open>The component tests return\<close>

lemma test_database_returns: "\<exists>b s'. test_database x s = (Inr b, s')"
  unfolding test_database_def by (rule try_except_returns) (auto simp add: prog_defs)

lemma test_rag_system_returns: "\<exists>b s'. test_rag_system x s = (Inr b, s')"
  unfolding test_rag_system_def by (rule try_except_returns) (auto simp add: prog_defs)

lemma test_tariff_calculator_returns: "\<exists>b s'. test_tariff_calculator x s = (Inr b, s')"
  unfolding test_tariff_calculator_def by (rule try_except_returns) (auto simp add: prog_defs)

lemma test_agent_returns: "\<exists>b s'. test_agent x s = (Inr b, s')"
  unfolding test_agent_def by (rule try_except_returns) (auto simp add: prog_defs)

lemma check_data_files_returns: "\<exists>b s'. check_data_files x s = (Inr b, s')"
  by (auto simp add: check_data_files_def required_files_def prog_defs)

text \<open>
  Claim C6. Each of the four component tests of the demo (\<open>test_database\<close>,
  \<open>test_rag_system\<close>, \<open>test_tariff_calculator\<close>, \<open>test_agent\<close>) returns a boolean
  whatever its component does, and when the body of the test raises an exception \<open>e\<close>
  the test logs the failure with \<open>str(e)\<close> and returns \<open>False\<close>: no exception reaches
  the caller.
\<close>

theorem tests_catch_every_exception:
  "(\<exists>b s'. test_database x s = (Inr b, s')) \<and>
   (\<exists>b s'. test_rag_system x s = (Inr b, s')) \<and>
   (\<exists>b s'. test_tariff_calculator x s = (Inr b, s')) \<and>
   (\<exists>b s'. test_agent x s = (Inr b, s')) \<and>
   (\<forall>e s'. test_database_body x s = (Inl e, s') \<longrightarrow>
      test_database x s =
        (Inr False, s'\<lparr>out := out s' @ [Log ERROR (''Database test failed: '' @ str_exc e)]\<rparr>)) \<and>
   (\<forall>e s'. test_rag_system_body x s = (Inl e, s') \<longrightarrow>
      test_rag_system x s =
        (Inr False, s'\<lparr>out := out s' @ [Log ERROR (''RAG system test failed: '' @ str_exc e)]\<rparr>)) \<and>
   (\<forall>e s'. test_tariff_calculator_body x s = (Inl e, s') \<longrightarrow>
      test_tariff_calculator x s =
        (Inr False,
         s'\<lparr>out := out s' @ [Log ERROR (''Tariff calculator test failed: '' @ str_exc e)]\<rparr>)) \<and>
   (\<forall>e s'. test_agent_body x s = (Inl e, s') \<longrightarrow>
      test_agent x s =
        (Inr False, s'\<lparr>out := out s' @ [Log ERROR (''Agent test failed: '' @ str_exc e)]\<rparr>))"
proof -
  have "\<forall>e s'. test_database_body x s = (Inl e, s') \<longrightarrow>
      test_database x s =
        (Inr False, s'\<lparr>out := out s' @ [Log ERROR (''Database test failed: '' @ str_exc e)]\<rparr>)"
    by (simp add: test_database_def try_except_def bnd_def logger_def emit_def ret_def)
  moreover have "\<forall>e s'. test_rag_system_body x s = (Inl e, s') \<longrightarrow>
      test_rag_system x s =
        (Inr False, s'\<lparr>out := out s' @ [Log ERROR (''RAG system test failed: '' @ str_exc e)]\<rparr>)"
    by (simp add: test_rag_system_def try_except_def bnd_def logger_def emit_def ret_def)
  moreover have "\<forall>e s'. test_tariff_calculator_body x s = (Inl e, s') \<longrightarrow>
      test_tariff_calculator x s =
        (Inr False,
         s'\<lparr>out := out s' @ [Log ERROR (''Tariff calculator test failed: '' @ str_exc e)]\<rparr>)"
    by (simp add: test_tariff_calculator_def try_except_def bnd_def logger_def emit_def ret_def)
  moreover have "\<forall>e s'. test_agent_body x s = (Inl e, s') \<longrightarrow>
      test_agent x s =
        (Inr False, s'\<lparr>out := out s' @ [Log ERROR (''Agent test failed: '' @ str_exc e)]\<rparr>)"
    by (simp add: test_agent_def try_except_def bnd_def logger_def emit_def ret_def)
  ultimately show ?thesis
    using test_database_returns [of x s] test_rag_system_returns [of x s]
      test_tariff_calculator_returns [of x s] test_agent_returns [of x s]
    by blast
qed

text \<open>Witness of C6: with none of the four modules installed, the body of every test
  raises \<open>ImportError\<close> at its import, and every test returns \<open>False\<close>.\<close>

theorem tests_catch_every_exception_witness:
  "test_database_body (demo_with not_installed (\<lambda>p. True)) start =
     (Inl (ImportError ''No module named database''),
      \<lparr>world = 1, out = [Log INFO ''Testing database...'']\<rparr>) \<and>
   test_database (demo_with not_installed (\<lambda>p. True)) start =
     (Inr False,
      \<lparr>world = 1,
       out = [Log INFO ''Testing database...'',
              Log ERROR ''Database test failed: No module named database'']\<rparr>) \<and>
   fst (test_rag_system_body (demo_with not_installed (\<lambda>p. True)) start) =
     Inl (ImportError ''No module named rag_system'') \<and>
   fst (test_rag_system (demo_with not_installed (\<lambda>p. True)) start) = Inr False \<and>
   fst (test_tariff_calculator_body (demo_with not_installed (\<lambda>p. True)) start) =
     Inl (ImportError ''No module named tariff_calculator'') \<and>
   fst (test_tariff_calculator (demo_with not_installed (\<lambda>p. True)) start) = Inr False \<and>
   fst (test_agent_body (demo_with not_installed (\<lambda>p. True)) start) =
     Inl (ImportError ''No module named agent'') \<and>
   fst (test_agent (demo_with not_installed (\<lambda>p. True)) start) = Inr False"
proof -
  let ?x = "demo_with not_installed (\<lambda>p. True)"
  have db: "test_database_body ?x start =
     (Inl (ImportError ''No module named database''),
      \<lparr>world = 1, out = [Log INFO ''Testing database...'']\<rparr>)"
    by (simp add: test_database_body_def demo_with_def not_installed_def start_def prog_defs)
  have rag: "test_rag_system_body ?x start =
     (Inl (ImportError ''No module named rag_system''),
      \<lparr>world = 1, out = [Log INFO ''Testing RAG system...'']\<rparr>)"
    by (simp add: test_rag_system_body_def demo_with_def not_installed_def start_def prog_defs)
  have calc: "test_tariff_calculator_body ?x start =
     (Inl (ImportError ''No module named tariff_calculator''),
      \<lparr>world = 1, out = [Log INFO ''Testing tariff calculator...'']\<rparr>)"
    by (simp add: test_tariff_calculator_body_def demo_with_def not_installed_def start_def prog_defs)
  have agent: "test_agent_body ?x start =
     (Inl (ImportError ''No module named agent''),
      \<lparr>world = 1, out = [Log INFO ''Testing TariffBot agent...'']\<rparr>)"
    by (simp add: test_agent_body_def demo_with_def not_installed_def start_def prog_defs)
  from tests_catch_every_exception [of ?x start] db rag calc agent
  show ?thesis by simp
qed

subsection \<open>Empty and short results\<close>

text \<open>The body of \<open>test_database\<close> returns \<open>False\<close> exactly when the import came back
  and \<^verbatim>\<open>setup_database()\<close> returned a false value.\<close>

lemma test_database_body_False:
  "fst (test_database_body x s) = Inr False \<longleftrightarrow>
     (\<exists>w1 w2. import_module x ''database'' (world s) = (Inr (), w1) \<and>
              setup_database x w1 = (Inr False, w2))"
proof (cases "import_module x ''database'' (world s)")
  case imp: (Pair ri w1)
  show ?thesis
  proof (cases ri)
    case (Inl e)
    with imp show ?thesis by (simp add: test_database_body_def prog_defs)
  next
    case (Inr u)
    show ?thesis
    proof (cases "setup_database x w1")
      case sd: (Pair rs w2)
      show ?thesis
      proof (cases rs)
        case (Inl e)
        with imp Inr sd show ?thesis by (simp add: test_database_body_def prog_defs)
      next
        case success: (Inr success)
        show ?thesis
        proof (cases success)
          case False
          with imp Inr sd success show ?thesis
            by (simp add: test_database_body_def prog_defs)
        next
          case True
          let ?s2 = "s\<lparr>out := out s @ [Log INFO ''Testing database...''], world := w2\<rparr>"
          let ?rest = "bnd (ext (HTSDatabase x)) (\<lambda>_.
            bnd (ext (HTSDataProcessor x)) (\<lambda>_.
            bnd (ext (search_hts_codes x ''asses'' 3)) (\<lambda>results.
            bnd (if results \<noteq> [] then
                   bnd (logger INFO (''Database search working: found ''
                          @ str_nat (length results) @ '' results for 'asses'' @ [CHR 0x27])) (\<lambda>_.
                   log_found (take 1 results))
                 else
                   logger WARNING ''No search results found, but database is functional'') (\<lambda>_.
            bnd (ext (close_connection x)) (\<lambda>_.
            ret True)))))"
          have rest: "fst (?rest ?s2) \<noteq> Inr False"
            by (intro bnd_never) (simp add: ret_def)
          have "test_database_body x s = ?rest ?s2"
            unfolding test_database_body_def
            apply (subst bnd_def, simp only: logger_def emit_def prod.case sum.case)
            apply (subst bnd_def, simp add: Spec2Isabelle.ext_def imp Inr)
            apply (subst bnd_def, simp add: Spec2Isabelle.ext_def sd success True)
            done
          with rest show ?thesis using imp Inr sd success True by simp
        qed
      qed
    qed
  qed
qed

lemma test_database_empty:
  assumes "import_module x ''database'' (world s) = (Inr (), w1)"
    and "setup_database x w1 = (Inr True, w2)"
    and "HTSDatabase x w2 = (Inr (), w3)"
    and "HTSDataProcessor x w3 = (Inr (), w4)"
    and "search_hts_codes x ''asses'' 3 w4 = (Inr [], w5)"
    and "close_connection x w5 = (Inr (), w6)"
  shows "test_database x s =
        (Inr True,
         s\<lparr>world := w6,
           out := out s @ [Log INFO ''Testing database...'',
                           Log WARNING ''No search results found, but database is functional'']\<rparr>)"
  using assms by (simp add: test_database_def test_database_body_def prog_defs)

lemma test_rag_system_short:
  assumes "import_module x ''rag_system'' (world s) = (Inr (), v1)"
    and "create_rag_system x v1 = (Inr (), v2)"
    and "rag_query x ''What is the United States-Israel Free Trade Agreement?'' v2 = (Inr result, v3)"
    and "length (dict_get result ''answer'' []) \<le> 50"
  shows "test_rag_system x s =
        (Inr True,
         s\<lparr>world := v3,
           out := out s @ [Log INFO ''Testing RAG system...'',
                           Log WARNING ''RAG system returned short response, but is functional'']\<rparr>)"
  using assms by (simp add: test_rag_system_def test_rag_system_body_def prog_defs)

text \<open>
  Claim C7. An empty or short result is a normal outcome. When every call of
  \<open>test_database\<close> comes back, the set-up succeeds and the search for \<open>asses\<close> finds no
  record, \<open>test_database\<close> logs a warning and returns \<open>True\<close>; it returns \<open>False\<close> only
  when its body raises an exception or \<^verbatim>\<open>setup_database()\<close> returns a false value. When
  every call of \<open>test_rag_system\<close> comes back and the answer has 50 characters or fewer
  (a missing answer counts as empty), \<open>test_rag_system\<close> logs a warning and returns
  \<open>True\<close>.
\<close>

theorem empty_results_are_normal:
  "(import_module x ''database'' (world s) = (Inr (), w1) \<and>
    setup_database x w1 = (Inr True, w2) \<and>
    HTSDatabase x w2 = (Inr (), w3) \<and>
    HTSDataProcessor x w3 = (Inr (), w4) \<and>
    search_hts_codes x ''asses'' 3 w4 = (Inr [], w5) \<and>
    close_connection x w5 = (Inr (), w6) \<longrightarrow>
      test_database x s =
        (Inr True,
         s\<lparr>world := w6,
           out := out s @ [Log INFO ''Testing database...'',
                           Log WARNING ''No search results found, but database is functional'']\<rparr>)) \<and>
   (fst (test_database x s) = Inr False \<longleftrightarrow>
      (\<exists>e. fst (test_database_body x s) = Inl e) \<or>
      (\<exists>w1 w2. import_module x ''database'' (world s) = (Inr (), w1) \<and>
               setup_database x w1 = (Inr False, w2))) \<and>
   (import_module x ''rag_system'' (world s) = (Inr (), v1) \<and>
    create_rag_system x v1 = (Inr (), v2) \<and>
    rag_query x ''What is the United States-Israel Free Trade Agreement?'' v2 = (Inr result, v3) \<and>
    length (dict_get result ''answer'' []) \<le> 50 \<longrightarrow>
      test_rag_system x s =
        (Inr True,
         s\<lparr>world := v3,
           out := out s @ [Log INFO ''Testing RAG system...'',
                           Log WARNING ''RAG system returned short response, but is functional'']\<rparr>))"
proof -
  have "fst (test_database x s) = Inr False \<longleftrightarrow>
      (\<exists>e. fst (test_database_body x s) = Inl e) \<or> fst (test_database_body x s) = Inr False"
  proof (cases "test_database_body x s")
    case (Pair r s')
    then show ?thesis
      by (cases r) (simp_all add: test_database_def try_except_def bnd_def logger_def emit_def ret_def)
  qed
  then have "fst (test_database x s) = Inr False \<longleftrightarrow>
      (\<exists>e. fst (test_database_body x s) = Inl e) \<or>
      (\<exists>w1 w2. import_module x ''database'' (world s) = (Inr (), w1) \<and>
               setup_database x w1 = (Inr False, w2))"
    unfolding test_database_body_False .
  then show ?thesis
    using test_database_empty [of x s w1 w2 w3 w4 w5 w6]
      test_rag_system_short [of x s v1 v2 result v3]
    by blast
qed

text \<open>Witness of C7: an installation where every call comes back, the search finds
  nothing and the answer of the retrieval system has 18 characters.\<close>

theorem empty_results_are_normal_witness:
  "search_hts_codes (demo_with installed (\<lambda>p. True)) ''asses'' 3 4 = (Inr [], 5) \<and>
   test_database (demo_with installed (\<lambda>p. True)) start =
     (Inr True,
      \<lparr>world = 6,
       out = [Log INFO ''Testing database...'',
              Log WARNING ''No search results found, but database is functional'']\<rparr>) \<and>
   length (dict_get [''answer'' \<mapsto> ''A 1985 agreement.''] ''answer'' []) \<le> 50 \<and>
   test_rag_system (demo_with installed (\<lambda>p. True)) start =
     (Inr True,
      \<lparr>world = 3,
       out = [Log INFO ''Testing RAG system...'',
              Log WARNING ''RAG system returned short response, but is functional'']\<rparr>)"
  using empty_results_are_normal [of "demo_with installed (\<lambda>p. True)" start 1 2 3 4 5 6 1 2
      "[''answer'' \<mapsto> ''A 1985 agreement.'']" 3]
  by (simp add: demo_with_def installed_def start_def dict_get_def)

subsection \<open>The two checks\<close>

lemma check_data_files_result:
  "fst (check_data_files x s) =
     Inr (path_exists x (world s) ''data/htsdata.csv'' \<and>
          path_exists x (world s) ''data/GeneralNotes.pdf'')"
  by (simp add: check_data_files_def required_files_def prog_defs)

lemma check_dependencies_True:
  assumes "import_module x ''pandas'' (world s) = (r1, w1)"
    and "import_module x ''sqlite3'' w1 = (r2, w2)"
    and "import_module x ''streamlit'' w2 = (r3, w3)"
  shows "fst (check_dependencies x s) = Inr True \<longleftrightarrow> r1 = Inr () \<and> r2 = Inr () \<and> r3 = Inr ()"
  using assms
  by (cases r1; cases r2; cases r3) (simp_all add: check_dependencies_def prog_defs)

lemma check_dependencies_records:
  assumes "import_module x ''pandas'' (world s) = (r1, w1)"
    and "import_module x ''sqlite3'' w1 = (r2, w2)"
    and "import_module x ''streamlit'' w2 = (r3, w3)"
    and "\<forall>r \<in> set [r1, r2, r3]. r = Inr () \<or> (\<exists>m. r = Inl (ImportError m))"
  shows "let missing_deps = (if r1 = Inr () then [] else [''pandas'']) @
                           (if r2 = Inr () then [] else [''sqlite3'']) @
                           (if r3 = Inr () then [] else [''streamlit'']);
             available = (if r1 = Inr () then [Log INFO ''Pandas available''] else []) @
                         (if r2 = Inr () then [Log INFO ''SQLite3 available''] else []) @
                         (if r3 = Inr () then [Log INFO ''Streamlit available''] else [])
         in check_dependencies x s =
            (Inr (missing_deps = []),
             s\<lparr>world := w3,
               out := out s @ available @
                 (if missing_deps = [] then []
                  else [Log ERROR (''Missing dependencies: '' @ join '', '' missing_deps),
                        Log ERROR ''Please install with: pip install -r requirements.txt''])\<rparr>)"
  using assms
  by (cases r1; cases r2; cases r3) (auto simp add: check_dependencies_def prog_defs Let_def)

text \<open>
  Claim C10. Let the three imports of \<open>check_dependencies\<close>, made one after the other,
  end as \<open>r1\<close>, \<open>r2\<close> and \<open>r3\<close>. Then \<open>check_dependencies\<close> returns \<open>True\<close> exactly when
  all three came back. When each import either came back or raised \<open>ImportError\<close>, the
  function made all three imports, and the list it logs holds every module that failed,
  in the order pandas, sqlite3, streamlit: it does not stop at the first failure.
  \<open>check_data_files\<close> returns the truth value of: both \<^verbatim>\<open>data/htsdata.csv\<close> and
  \<^verbatim>\<open>data/GeneralNotes.pdf\<close> exist.
\<close>

theorem checks_report_all_missing:
  assumes "import_module x ''pandas'' (world s) = (r1, w1)"
    and "import_module x ''sqlite3'' w1 = (r2, w2)"
    and "import_module x ''streamlit'' w2 = (r3, w3)"
  shows "(fst (check_dependencies x s) = Inr True \<longleftrightarrow> r1 = Inr () \<and> r2 = Inr () \<and> r3 = Inr ()) \<and>
    ((\<forall>r \<in> set [r1, r2, r3]. r = Inr () \<or> (\<exists>m. r = Inl (ImportError m))) \<longrightarrow>
       (let missing_deps = (if r1 = Inr () then [] else [''pandas'']) @
                           (if r2 = Inr () then [] else [''sqlite3'']) @
                           (if r3 = Inr () then [] else [''streamlit'']);
            available = (if r1 = Inr () then [Log INFO ''Pandas available''] else []) @
                        (if r2 = Inr () then [Log INFO ''SQLite3 available''] else []) @
                        (if r3 = Inr () then [Log INFO ''Streamlit available''] else [])
        in check_dependencies x s =
           (Inr (missing_deps = []),
            s\<lparr>world := w3,
              out := out s @ available @
                (if missing_deps = [] then []
                 else [Log ERROR (''Missing dependencies: '' @ join '', '' missing_deps),
                       Log ERROR ''Please install with: pip install -r requirements.txt''])\<rparr>))) \<and>
    fst (check_data_files x t) =
      Inr (path_exists x (world t) ''data/htsdata.csv'' \<and>
           path_exists x (world t) ''data/GeneralNotes.pdf'')"
  using check_dependencies_True [OF assms] check_dependencies_records [OF assms]
    check_data_files_result [of x t]
  by blast

text \<open>Witness of C10: pandas is installed, sqlite3 and streamlit are not, and only the
  first data file exists. Both missing modules are logged, and both checks return
  \<open>False\<close>.\<close>

theorem checks_report_all_missing_witness:
  "check_dependencies
     (demo_with (\<lambda>m. if m = ''pandas'' then Inr () else not_installed m)
        (\<lambda>p. p = ''data/htsdata.csv'')) start =
     (Inr False,
      \<lparr>world = 3,
       out = [Log INFO ''Pandas available'',
              Log ERROR ''Missing dependencies: sqlite3, streamlit'',
              Log ERROR ''Please install with: pip install -r requirements.txt'']\<rparr>) \<and>
   fst (check_data_files
     (demo_with (\<lambda>m. if m = ''pandas'' then Inr () else not_installed m)
        (\<lambda>p. p = ''data/htsdata.csv'')) start) = Inr False"
  using checks_report_all_missing
    [of "demo_with (\<lambda>m. if m = ''pandas'' then Inr () else not_installed m)
           (\<lambda>p. p = ''data/htsdata.csv'')" start
        "Inr ()" 1 "Inl (ImportError ''No module named sqlite3'')" 2
        "Inl (ImportError ''No module named streamlit'')" 3 start]
  by (simp add: demo_with_def not_installed_def start_def)

subsection \<open>run_comprehensive_demo\<close>

lemma run_tests_chain:
  assumes "test_database x s2 = (Inr b1, s3)"
    and "test_rag_system x s3 = (Inr b2, s4)"
    and "test_tariff_calculator x s4 = (Inr b3, s5)"
    and "test_agent x s5 = (Inr b4, s6)"
  shows "run_tests (tests x) [] s2 =
           (Inr [(''Database'', b1), (''RAG System'', b2), (''Tariff Calculator'', b3),
                 (''TariffBot Agent'', b4)], s6)"
  using assms by (simp add: tests_def bnd_def ret_def try_except_def)

lemma print_results_effect:
  "\<exists>lines. print_results rs s = (Inr (), s\<lparr>out := out s @ map Print lines\<rparr>)"
proof (induction rs arbitrary: s)
  case Nil
  have "print_results [] s = (Inr (), s\<lparr>out := out s @ map Print []\<rparr>)"
    by (simp add: ret_def)
  then show ?case by blast
next
  case (Cons r rs)
  obtain name passed where r: "r = (name, passed)" by (cases r)
  let ?line = "ljust 20 name @ '' '' @ (if passed then ''PASS'' else ''FAIL'')"
  let ?s1 = "s\<lparr>out := out s @ [Print ?line]\<rparr>"
  from Cons.IH [of ?s1] obtain lines where
    "print_results rs ?s1 = (Inr (), ?s1\<lparr>out := out ?s1 @ map Print lines\<rparr>)" by blast
  then have "print_results (r # rs) s = (Inr (), s\<lparr>out := out s @ map Print (?line # lines)\<rparr>)"
    by (simp add: r bnd_ret print_def bnd_emit)
  then show ?case by blast
qed

text \<open>The summary only prints, and returns whether some test passed.\<close>

lemma summary_effect:
  fixes s :: "('w, 'z) pystate_scheme"
  shows "\<exists>lines. summary results s =
           (Inr (sum_values results > 0), s\<lparr>out := out s @ map Print lines\<rparr>)"
proof -
  let ?s3 = "s\<lparr>out := out s @ [Print (CHR 0x0A # replicate 50 CHR ''=''),
                                Print ''Test Results Summary:'',
                                Print (replicate 50 CHR ''='')]\<rparr>"
  obtain ls where pr: "print_results results ?s3 = (Inr (), ?s3\<lparr>out := out ?s3 @ map Print ls\<rparr>)"
    using print_results_effect [of results ?s3] by blast
  let ?p = "sum_values results" and ?t = "length results"
  let ?head = "[CHR 0x0A # replicate 50 CHR ''='', ''Test Results Summary:'',
                replicate 50 CHR ''=''] @ ls @
     [CHR 0x0A # ''Overall: '' @ str_nat ?p @ ''/'' @ str_nat ?t @ '' tests passed'']"
  let ?tail = "if ?p = ?t then
                 [CHR 0x0A # ''All tests passed! HTS AI Agent is fully functional.'',
                  CHR 0x0A # ''To run the web interface:'', ''streamlit run frontend/app.py'']
               else if ?p > 0 then
                 [CHR 0x0A # str_nat ?p @ '' out of '' @ str_nat ?t @ '' components working.'',
                  ''The system will use fallback responses for failed components.'',
                  CHR 0x0A # ''To run the web interface:'', ''streamlit run frontend/app.py'']
               else [CHR 0x0A # ''All tests failed. Please check the error messages above.'']"
  have "summary results s = (Inr (?p > 0), s\<lparr>out := out s @ map Print (?head @ ?tail)\<rparr>)"
    unfolding summary_def
    by (simp add: print_def bnd_assoc bnd_emit bnd_ret
          bnd_Inr [where m = "print_results results", OF pr] ret_def emit_def
          del: replicate.simps str_nat.simps)
  then show ?thesis by blast
qed

lemma filter_is_Log_Print: "filter is_Log (map Print lines) = []"
  by (induction lines) simp_all

lemma sum_values_pos: "sum_values rs > 0 \<longleftrightarrow> (\<exists>r \<in> set rs. snd r)"
  by (induction rs) (auto simp add: sum_values_def)

text \<open>
  Claim C9. Let \<open>check_dependencies\<close>, run after the two lines of the banner, end as
  \<open>d\<close>, and let \<open>check_data_files\<close> and the four tests, each run in the state the one
  before left, end as \<open>f\<close>, \<open>r1\<close>, \<open>r2\<close>, \<open>r3\<close> and \<open>r4\<close>. Then
  \<open>run_comprehensive_demo\<close> returns \<open>True\<close> exactly when both checks return \<open>True\<close> and
  at least one test returns \<open>True\<close>. When a check returns \<open>False\<close> the demo prints one
  line and returns \<open>False\<close> in the state the check left: no test has run. When both
  checks pass, the loop runs Database, RAG System, Tariff Calculator and TariffBot Agent
  in this order, each in the state the one before left, whatever the earlier tests
  returned; the world at the end is the world after the last test, and nothing is
  logged after it.
\<close>

theorem run_comprehensive_demo_result:
  fixes s :: "('w, 'z) pystate_scheme"
  assumes deps: "check_dependencies x
            (s\<lparr>out := out s @ [Print ''HTS AI Agent - Comprehensive Demo'',
                                Print (replicate 50 CHR ''='')]\<rparr>) = (d, s1)"
    and files: "check_data_files x s1 = (f, s2)"
    and t1: "test_database x s2 = (r1, s3)"
    and t2: "test_rag_system x s3 = (r2, s4)"
    and t3: "test_tariff_calculator x s4 = (r3, s5)"
    and t4: "test_agent x s5 = (r4, s6)"
  shows "(fst (run_comprehensive_demo x s) = Inr True \<longleftrightarrow>
            d = Inr True \<and> f = Inr True \<and>
            (r1 = Inr True \<or> r2 = Inr True \<or> r3 = Inr True \<or> r4 = Inr True)) \<and>
         (d = Inr False \<longrightarrow>
            run_comprehensive_demo x s =
              (Inr False,
               s1\<lparr>out := out s1 @
                 [Print ''Dependency check failed. Please install required packages.'']\<rparr>)) \<and>
         (d = Inr True \<and> f = Inr False \<longrightarrow>
            run_comprehensive_demo x s =
              (Inr False,
               s2\<lparr>out := out s2 @
                 [Print ''Data file check failed. Please ensure data files are present.'']\<rparr>)) \<and>
         (d = Inr True \<and> f = Inr True \<longrightarrow>
            run_tests (tests x) [] s2 =
              (Inr [(''Database'', r1 = Inr True), (''RAG System'', r2 = Inr True),
                    (''Tariff Calculator'', r3 = Inr True), (''TariffBot Agent'', r4 = Inr True)],
               s6) \<and>
            world (snd (run_comprehensive_demo x s)) = world s6 \<and>
            filter is_Log (out (snd (run_comprehensive_demo x s))) = filter is_Log (out s6))"
proof -
  obtain b1 where r1: "r1 = Inr b1" using test_database_returns [of x s2] t1 by auto
  obtain b2 where r2: "r2 = Inr b2" using test_rag_system_returns [of x s3] t2 by auto
  obtain b3 where r3: "r3 = Inr b3" using test_tariff_calculator_returns [of x s4] t3 by auto
  obtain b4 where r4: "r4 = Inr b4" using test_agent_returns [of x s5] t4 by auto
  obtain fb where f: "f = Inr fb" using check_data_files_returns [of x s1] files by auto
  let ?results = "[(''Database'', b1), (''RAG System'', b2), (''Tariff Calculator'', b3),
            (''TariffBot Agent'', b4)]"
  have chain: "run_tests (tests x) [] s2 = (Inr ?results, s6)"
    using t1 t2 t3 t4 unfolding r1 r2 r3 r4 by (rule run_tests_chain)
  obtain lines where sm: "summary ?results s6 =
      (Inr (sum_values ?results > 0), s6\<lparr>out := out s6 @ map Print lines\<rparr>)"
    using summary_effect [of ?results s6] by blast
  have pos: "sum_values ?results > 0 \<longleftrightarrow> b1 \<or> b2 \<or> b3 \<or> b4"
    by (simp add: sum_values_pos)
  show ?thesis
  proof (cases d)
    case (Inl e)
    then have "run_comprehensive_demo x s = (Inl e, s1)"
      by (simp add: run_comprehensive_demo_def print_def bnd_emit
            bnd_Inl [where m = "check_dependencies x", OF deps [unfolded Inl]]
            del: replicate.simps)
    then show ?thesis using Inl by simp
  next
    case (Inr deps_ok)
    show ?thesis
    proof (cases deps_ok)
      case False
      then have "run_comprehensive_demo x s = (Inr False,
               s1\<lparr>out := out s1 @
                 [Print ''Dependency check failed. Please install required packages.'']\<rparr>)"
        using deps Inr
        by (simp add: run_comprehensive_demo_def print_def bnd_emit
              bnd_Inr [where m = "check_dependencies x", OF deps [unfolded Inr]] ret_def
              del: replicate.simps)
      then show ?thesis using Inr False by simp
    next
      case dT: True
      have dval: "d = Inr True" using Inr dT by simp
      note deps' = deps [unfolded dval]
      note files' = files [unfolded f]
      show ?thesis
      proof (cases fb)
        case False
        have "run_comprehensive_demo x s = (Inr False,
               s2\<lparr>out := out s2 @
                 [Print ''Data file check failed. Please ensure data files are present.'']\<rparr>)"
          using False
          by (simp add: run_comprehensive_demo_def print_def bnd_emit
                bnd_Inr [where m = "check_dependencies x", OF deps']
                bnd_Inr [where m = "check_data_files x", OF files'] ret_def
                del: replicate.simps)
        moreover have "f = Inr False" using f False by simp
        ultimately show ?thesis using dval by simp
      next
        case fbT: True
        have "run_comprehensive_demo x s =
            (Inr (sum_values ?results > 0), s6\<lparr>out := out s6 @ map Print lines\<rparr>)"
          using fbT
          by (simp add: run_comprehensive_demo_def print_def bnd_emit
                bnd_Inr [where m = "check_dependencies x", OF deps']
                bnd_Inr [where m = "check_data_files x", OF files']
                bnd_Inr [where m = "run_tests (tests x) []", OF chain] sm
                del: replicate.simps)
        moreover have "f = Inr True" using f fbT by simp
        ultimately show ?thesis using dval chain pos
          by (simp add: r1 r2 r3 r4 filter_is_Log_Print)
      qed
    qed
  qed
qed

text \<open>Witness of C9: everything is installed except the module \<^verbatim>\<open>rag_system\<close>. Both
  checks pass, the database test passes, the test of the retrieval system fails at its
  import, and the two tests after it still run: the demo returns \<open>True\<close> after 19 calls
  into the collaborators.\<close>

theorem run_comprehensive_demo_result_witness:
  "fst (run_comprehensive_demo
          (demo_with (\<lambda>m. if m = ''rag_system'' then not_installed m else Inr ()) (\<lambda>p. True))
          start) = Inr True \<and>
   world (snd (run_comprehensive_demo
          (demo_with (\<lambda>m. if m = ''rag_system'' then not_installed m else Inr ()) (\<lambda>p. True))
          start)) = 19 \<and>
   filter is_Log (out (snd (run_comprehensive_demo
          (demo_with (\<lambda>m. if m = ''rag_system'' then not_installed m else Inr ()) (\<lambda>p. True))
          start))) =
     [Log INFO ''Pandas available'', Log INFO ''SQLite3 available'',
      Log INFO ''Streamlit available'', Log INFO ''All required data files found'',
      Log INFO ''Testing database...'',
      Log WARNING ''No search results found, but database is functional'',
      Log INFO ''Testing RAG system...'',
      Log ERROR ''RAG system test failed: No module named rag_system'',
      Log INFO ''Testing tariff calculator...'',
      Log WARNING ''Tariff calculator returned no result'',
      Log INFO ''Testing TariffBot agent...'',
      Log WARNING ''Agent responses are short, but functional'']"
proof -
  let ?x = "demo_with (\<lambda>m. if m = ''rag_system'' then not_installed m else Inr ()) (\<lambda>p. True)"
  let ?o1 = "[Print ''HTS AI Agent - Comprehensive Demo'', Print (replicate 50 CHR ''=''),
              Log INFO ''Pandas available'', Log INFO ''SQLite3 available'',
              Log INFO ''Streamlit available'']"
  let ?o2 = "?o1 @ [Log INFO ''All required data files found'']"
  let ?o3 = "?o2 @ [Log INFO ''Testing database...'',
                    Log WARNING ''No search results found, but database is functional'']"
  let ?o4 = "?o3 @ [Log INFO ''Testing RAG system...'',
                    Log ERROR ''RAG system test failed: No module named rag_system'']"
  let ?o5 = "?o4 @ [Log INFO ''Testing tariff calculator...'',
                    Log WARNING ''Tariff calculator returned no result'']"
  let ?o6 = "?o5 @ [Log INFO ''Testing TariffBot agent...'',
                    Log WARNING ''Agent responses are short, but functional'']"
  have d: "check_dependencies ?x
             (start\<lparr>out := out start @ [Print ''HTS AI Agent - Comprehensive Demo'',
                                        Print (replicate 50 CHR ''='')]\<rparr>) =
           (Inr True, \<lparr>world = 3, out = ?o1\<rparr>)"
    by (simp add: check_dependencies_def demo_with_def start_def prog_defs del: replicate.simps)
  have f: "check_data_files ?x \<lparr>world = 3, out = ?o1\<rparr> = (Inr True, \<lparr>world = 3, out = ?o2\<rparr>)"
    by (simp add: check_data_files_def required_files_def demo_with_def prog_defs
          del: replicate.simps)
  have t1: "test_database ?x \<lparr>world = 3, out = ?o2\<rparr> = (Inr True, \<lparr>world = 9, out = ?o3\<rparr>)"
    by (simp add: test_database_def test_database_body_def demo_with_def prog_defs
          del: replicate.simps)
  have t2: "test_rag_system ?x \<lparr>world = 9, out = ?o3\<rparr> = (Inr False, \<lparr>world = 10, out = ?o4\<rparr>)"
    by (simp add: test_rag_system_def test_rag_system_body_def demo_with_def not_installed_def
          prog_defs del: replicate.simps)
  have t3: "test_tariff_calculator ?x \<lparr>world = 10, out = ?o4\<rparr> =
              (Inr True, \<lparr>world = 14, out = ?o5\<rparr>)"
    by (simp add: test_tariff_calculator_def test_tariff_calculator_body_def demo_with_def
          prog_defs del: replicate.simps)
  have t4: "test_agent ?x \<lparr>world = 14, out = ?o5\<rparr> = (Inr True, \<lparr>world = 19, out = ?o6\<rparr>)"
    by (simp add: test_agent_def test_agent_body_def test_queries_def demo_with_def prog_defs
          del: replicate.simps)
  from run_comprehensive_demo_result [OF d f t1 t2 t3 t4]
  show ?thesis by (simp del: replicate.simps)
qed

section \<open>Properties of frontend/app.py\<close>

subsection \<open>One run of the chat page\<close>

lemma query_unfold:
  "query x bot' p s =
     (case bot' of
        None \<Rightarrow>
          (Inl (AttributeError
                  (CHR 0x27 # ''NoneType' object has no attribute 'query'' @ [CHR 0x27])), s)
      | Some b \<Rightarrow>
          (fst (bot_query x b p (world s)), s\<lparr>world := snd (bot_query x b p (world s))\<rparr>))"
  by (cases bot') (simp_all add: query_def raise_def Spec2Isabelle.ext_def split: prod.split)

lemma show_messages_effect: "show_messages ms s = (Inr (), s\<lparr>out := out s @ shown ms\<rparr>)"
  by (induction ms arbitrary: s) (simp_all add: ret_def st_def bnd_emit)

text \<open>A run with a prompt: the whole effect of \<open>chat_interface\<close>.\<close>

lemma chat_interface_run:
  fixes s :: "('w, 'b, 'z) appstate_scheme" and x :: "('w, 'b) app_ext" and bot' :: "'b option"
  assumes t: "truthy (chat_input inp)"
  defines "prompt \<equiv> str_opt (chat_input inp)"
  defines "old \<equiv> (case messages s of None \<Rightarrow> [] | Some ms \<Rightarrow> ms)"
  defines "response \<equiv> (case fst (query x bot' prompt s) of
                          Inr t \<Rightarrow> t
                        | Inl e \<Rightarrow> ''I encountered an error processing your question: '' @ str_exc e)"
  shows "chat_interface x bot' has_openai inp s =
           (Inr (),
            s\<lparr>world := world (snd (query x bot' prompt s)),
              out := out s @
                [St ''header'' ''Chat with TariffBot'',
                 (if has_openai then
                    St ''success'' ''Using OpenAI LLM for intelligent responses from HTS General Notes''
                  else
                    St ''warning''
                      ''Using basic text extraction (set OPENAI_API_KEY for full LLM functionality)''),
                 St ''write''
                   ''Ask me anything about HTS tariffs, trade agreements, or duty calculations!'']
                @ shown old @
                [St ''chat_input'' ''Ask about HTS codes, tariffs, or trade agreements...'',
                 St ''chat_message'' ''user'', St ''markdown'' prompt,
                 St ''chat_message'' ''assistant'',
                 St ''spinner'' (if has_openai then ''Generating response with LLM...''
                                 else ''Processing with text extraction...''),
                 St ''markdown'' (response_box response)],
              messages := Some (old @ [\<lparr>role = ''user'', content = prompt\<rparr>,
                                       \<lparr>role = ''assistant'', content = response\<rparr>])\<rparr>)"
proof (cases bot')
  case None
  show ?thesis
    unfolding chat_interface_def response_def old_def
    using t None
    by (cases has_openai; cases "messages s")
       (simp_all add: st_def bnd_emit bnd_ret show_messages_effect query_unfold
          prompt_def [symmetric] try_except_def append_message_def bnd_def ret_def emit_def)
next
  case (Some b)
  show ?thesis
    unfolding chat_interface_def response_def old_def
    using t Some
    by (cases has_openai; cases "messages s"; cases "fst (bot_query x b prompt (world s))")
       (simp_all add: st_def bnd_emit bnd_ret show_messages_effect query_unfold
          prompt_def [symmetric] try_except_def append_message_def bnd_def ret_def emit_def)
qed

text \<open>A run without a prompt.\<close>

lemma chat_interface_idle:
  fixes s :: "('w, 'b, 'z) appstate_scheme"
  assumes t: "\<not> truthy (chat_input inp)"
  shows "chat_interface x bot' has_openai inp s =
           (Inr (),
            s\<lparr>out := out s @
                [St ''header'' ''Chat with TariffBot'',
                 (if has_openai then
                    St ''success'' ''Using OpenAI LLM for intelligent responses from HTS General Notes''
                  else
                    St ''warning''
                      ''Using basic text extraction (set OPENAI_API_KEY for full LLM functionality)''),
                 St ''write''
                   ''Ask me anything about HTS tariffs, trade agreements, or duty calculations!'']
                @ shown (case messages s of None \<Rightarrow> [] | Some ms \<Rightarrow> ms)
                @ [St ''chat_input'' ''Ask about HTS codes, tariffs, or trade agreements...''],
              messages := Some (case messages s of None \<Rightarrow> [] | Some ms \<Rightarrow> ms)\<rparr>)"
  unfolding chat_interface_def
  using t
  by (cases has_openai; cases "messages s")
     (simp_all add: st_def bnd_emit bnd_ret show_messages_effect bnd_def ret_def emit_def)

subsection \<open>The sample page returns\<close>

lemma sample_loop_returns:
  "\<exists>s'. sample_loop x bot' has_openai inp i items s = (Inr (), s')"
proof (induction items arbitrary: i s)
  case Nil
  show ?case by (simp add: ret_def)
next
  case (Cons item rest)
  let ?s1 = "s\<lparr>out := out s @ [St ''expander'' (category item @ '': '' @ question item),
                                St ''write'' (''**How it works:** '' @ description item),
                                St ''button'' ''Ask this question'']\<rparr>"
  show ?case
  proof (cases "button inp i")
    case False
    then show ?thesis using Cons.IH [of "Suc i" ?s1]
      by (simp add: st_def bnd_emit bnd_ret)
  next
    case True
    let ?s2 = "?s1\<lparr>out := out ?s1 @
                 [St ''spinner'' (if has_openai then ''Generating LLM response...''
                                  else ''Processing...'')]\<rparr>"
    obtain response s3 where q: "try_except (query x bot' (question item))
        (\<lambda>e. ret (''Error: '' @ str_exc e)) ?s2 = (Inr response, s3)"
      using try_except_returns [of "\<lambda>e. ret (''Error: '' @ str_exc e)"
          "query x bot' (question item)" ?s2]
      by (auto simp add: ret_def)
    let ?s4 = "s3\<lparr>out := out s3 @ [St ''markdown'' (response_box response),
                  (if has_openai then
                     St ''info'' ''Response generated using OpenAI LLM with HTS General Notes content''
                   else
                     St ''info'' ''Response generated using basic text extraction'')]\<rparr>"
    from Cons.IH [of "Suc i" ?s4] obtain s' where
      "sample_loop x bot' has_openai inp (Suc i) rest ?s4 = (Inr (), s')" by blast
    then show ?thesis using True q
      by (cases has_openai) (simp_all add: st_def bnd_emit bnd_ret bnd_assoc bnd_def emit_def)
  qed
qed

lemma sample_questions_interface_returns:
  "\<exists>s'. sample_questions_interface x bot' has_openai inp s = (Inr (), s')"
  unfolding sample_questions_interface_def
  using sample_loop_returns
  by (cases has_openai) (simp_all add: st_def bnd_emit)

subsection \<open>One run of the sample page\<close>

text \<open>The first component of what \<open>query\<close> gives depends on the world only.\<close>

lemma query_world:
  "fst (query x bot' p (s\<lparr>world := w\<rparr>)) = fst (query x bot' p (t\<lparr>world := w\<rparr>))"
  by (simp add: query_unfold split: option.split)

lemma sample_loop_step:
  "sample_loop x bot' has_openai inp i (item # rest) s =
     sample_loop x bot' has_openai inp (Suc i) rest
       (if button inp i then
          s\<lparr>world := world (snd (query x bot' (question item) s)),
            out := out s @
              [St ''expander'' (category item @ '': '' @ question item),
               St ''write'' (''**How it works:** '' @ description item),
               St ''button'' ''Ask this question'',
               St ''spinner'' (if has_openai then ''Generating LLM response...''
                               else ''Processing...''),
               St ''markdown''
                 (response_box (case fst (query x bot' (question item) s) of
                                  Inr t \<Rightarrow> t
                                | Inl e \<Rightarrow> ''Error: '' @ str_exc e)),
               (if has_openai then
                  St ''info'' ''Response generated using OpenAI LLM with HTS General Notes content''
                else
                  St ''info'' ''Response generated using basic text extraction'')]\<rparr>
        else
          s\<lparr>out := out s @
              [St ''expander'' (category item @ '': '' @ question item),
               St ''write'' (''**How it works:** '' @ description item),
               St ''button'' ''Ask this question'']\<rparr>)"
proof (cases "button inp i")
  case False
  then show ?thesis by (simp add: st_def bnd_emit bnd_ret)
next
  case True
  show ?thesis
  proof (cases bot')
    case None
    with True show ?thesis
      by (cases has_openai)
         (simp_all add: st_def bnd_emit bnd_ret bnd_assoc query_unfold try_except_def
            bnd_def ret_def emit_def)
  next
    case (Some b)
    with True show ?thesis
      by (cases has_openai; cases "fst (bot_query x b (question item) (world s))")
         (simp_all add: st_def bnd_emit bnd_ret bnd_assoc query_unfold try_except_def
            bnd_def ret_def emit_def)
  qed
qed

lemma sample_loop_effect:
  "\<exists>w' evs. sample_loop x bot' has_openai inp i items s =
      (Inr (), s\<lparr>world := w', out := out s @ evs\<rparr>)"
proof (induction items arbitrary: i s)
  case Nil
  have "sample_loop x bot' has_openai inp i [] s = (Inr (), s\<lparr>world := world s, out := out s @ []\<rparr>)"
    by (simp add: ret_def)
  then show ?case by blast
next
  case (Cons item rest)
  show ?case
  proof (cases "button inp i")
    case False
    let ?t = "s\<lparr>out := out s @
              [St ''expander'' (category item @ '': '' @ question item),
               St ''write'' (''**How it works:** '' @ description item),
               St ''button'' ''Ask this question'']\<rparr>"
    from Cons.IH [of "Suc i" ?t] obtain w' evs where
      "sample_loop x bot' has_openai inp (Suc i) rest ?t = (Inr (), ?t\<lparr>world := w', out := out ?t @ evs\<rparr>)"
      by blast
    then have "sample_loop x bot' has_openai inp i (item # rest) s =
        (Inr (), s\<lparr>world := w', out := out s @
              ([St ''expander'' (category item @ '': '' @ question item),
               St ''write'' (''**How it works:** '' @ description item),
               St ''button'' ''Ask this question''] @ evs)\<rparr>)"
      using False by (simp add: sample_loop_step del: sample_loop.simps)
    then show ?thesis by blast
  next
    case True
    let ?evs = "[St ''expander'' (category item @ '': '' @ question item),
               St ''write'' (''**How it works:** '' @ description item),
               St ''button'' ''Ask this question'',
               St ''spinner'' (if has_openai then ''Generating LLM response...''
                               else ''Processing...''),
               St ''markdown''
                 (response_box (case fst (query x bot' (question item) s) of
                                  Inr t \<Rightarrow> t
                                | Inl e \<Rightarrow> ''Error: '' @ str_exc e)),
               (if has_openai then
                  St ''info'' ''Response generated using OpenAI LLM with HTS General Notes content''
                else
                  St ''info'' ''Response generated using basic text extraction'')]"
    let ?t = "s\<lparr>world := world (snd (query x bot' (question item) s)), out := out s @ ?evs\<rparr>"
    from Cons.IH [of "Suc i" ?t] obtain w' evs where
      "sample_loop x bot' has_openai inp (Suc i) rest ?t = (Inr (), ?t\<lparr>world := w', out := out ?t @ evs\<rparr>)"
      by blast
    then have "sample_loop x bot' has_openai inp i (item # rest) s =
        (Inr (), s\<lparr>world := w', out := out s @ (?evs @ evs)\<rparr>)"
      using True by (simp add: sample_loop_step del: sample_loop.simps)
    then show ?thesis by blast
  qed
qed

text \<open>Every pressed sample is answered: its answer is among the events the loop
  appends, and for the first pressed sample the bot is asked in the world the loop
  started in.\<close>

lemma sample_loop_answers:
  assumes "k < length items" and "button inp (i + k)"
  shows "\<exists>w w' evs.
      sample_loop x bot' has_openai inp i items s = (Inr (), s\<lparr>world := w', out := out s @ evs\<rparr>) \<and>
      ((\<forall>j<k. \<not> button inp (i + j)) \<longrightarrow> w = world s) \<and>
      St ''markdown''
        (response_box (case fst (query x bot' (question (items ! k)) (s\<lparr>world := w\<rparr>)) of
                         Inr t \<Rightarrow> t
                       | Inl e \<Rightarrow> ''Error: '' @ str_exc e)) \<in> set evs"
  using assms
proof (induction items arbitrary: i k s)
  case Nil
  then show ?case by simp
next
  case (Cons item rest)
  let ?frame = "[St ''expander'' (category item @ '': '' @ question item),
               St ''write'' (''**How it works:** '' @ description item),
               St ''button'' ''Ask this question'']"
  let ?answered = "[St ''spinner'' (if has_openai then ''Generating LLM response...''
                               else ''Processing...''),
               St ''markdown''
                 (response_box (case fst (query x bot' (question item) s) of
                                  Inr t \<Rightarrow> t
                                | Inl e \<Rightarrow> ''Error: '' @ str_exc e)),
               (if has_openai then
                  St ''info'' ''Response generated using OpenAI LLM with HTS General Notes content''
                else
                  St ''info'' ''Response generated using basic text extraction'')]"
  let ?t = "if button inp i then
              s\<lparr>world := world (snd (query x bot' (question item) s)),
                out := out s @ ?frame @ ?answered\<rparr>
            else s\<lparr>out := out s @ ?frame\<rparr>"
  let ?new = "if button inp i then ?frame @ ?answered else ?frame"
  have step: "sample_loop x bot' has_openai inp i (item # rest) s =
                sample_loop x bot' has_openai inp (Suc i) rest ?t"
    by (simp add: sample_loop_step del: sample_loop.simps)
  have t_out: "out ?t = out s @ ?new" by simp
  show ?case
  proof (cases k)
    case 0
    with Cons.prems have pressed: "button inp i" by simp
    obtain w' evs where rest: "sample_loop x bot' has_openai inp (Suc i) rest ?t =
        (Inr (), ?t\<lparr>world := w', out := out ?t @ evs\<rparr>)"
      using sample_loop_effect [of x bot' has_openai inp "Suc i" rest ?t] by blast
    have "sample_loop x bot' has_openai inp i (item # rest) s =
        (Inr (), s\<lparr>world := w', out := out s @ (?new @ evs)\<rparr>)"
      unfolding step rest using pressed by simp
    moreover have "St ''markdown''
        (response_box (case fst (query x bot' (question ((item # rest) ! k)) (s\<lparr>world := world s\<rparr>)) of
                         Inr t \<Rightarrow> t
                       | Inl e \<Rightarrow> ''Error: '' @ str_exc e)) \<in> set (?new @ evs)"
      using pressed 0 by simp
    ultimately show ?thesis by blast
  next
    case (Suc k')
    with Cons.prems have k': "k' < length rest" and b: "button inp (Suc i + k')" by simp_all
    from Cons.IH [OF k' b, of ?t] obtain w w' evs where
      run: "sample_loop x bot' has_openai inp (Suc i) rest ?t =
              (Inr (), ?t\<lparr>world := w', out := out ?t @ evs\<rparr>)"
      and first: "(\<forall>j<k'. \<not> button inp (Suc i + j)) \<longrightarrow> w = world ?t"
      and ev: "St ''markdown''
        (response_box (case fst (query x bot' (question (rest ! k')) (?t\<lparr>world := w\<rparr>)) of
                         Inr t \<Rightarrow> t
                       | Inl e \<Rightarrow> ''Error: '' @ str_exc e)) \<in> set evs"
      by blast
    have "sample_loop x bot' has_openai inp i (item # rest) s =
        (Inr (), s\<lparr>world := w', out := out s @ (?new @ evs)\<rparr>)"
      unfolding step run by simp
    moreover have "(\<forall>j<k. \<not> button inp (i + j)) \<longrightarrow> w = world s"
    proof
      assume none: "\<forall>j<k. \<not> button inp (i + j)"
      then have "\<not> button inp i" using Suc by force
      moreover have "\<forall>j<k'. \<not> button inp (Suc i + j)"
        using none Suc by (metis Suc_less_eq add_Suc_right add_Suc)
      ultimately show "w = world s" using first by simp
    qed
    moreover have "St ''markdown''
        (response_box (case fst (query x bot' (question ((item # rest) ! k)) (s\<lparr>world := w\<rparr>)) of
                         Inr t \<Rightarrow> t
                       | Inl e \<Rightarrow> ''Error: '' @ str_exc e)) \<in> set (?new @ evs)"
      using ev Suc query_world [where s = ?t and t = s and w = w and p = "question (rest ! k')" and x = x] by simp
    ultimately show ?thesis by blast
  qed
qed

lemma sample_questions_interface_unfold:
  "sample_questions_interface x bot' has_openai inp s =
     sample_loop x bot' has_openai inp 0 sample_questions
       (s\<lparr>out := out s @
          [St ''header'' ''Sample Questions'',
           (if has_openai then
              St ''success''
                ''These questions will be answered using OpenAI LLM with HTS General Notes content''
            else
              St ''warning'' ''These questions will be answered using basic text extraction''),
           St ''write'' ''Try these sample questions to see TariffBot's LLM capabilities:'']\<rparr>)"
  unfolding sample_questions_interface_def
  by (cases has_openai) (simp_all add: st_def bnd_emit del: sample_loop.simps)

lemma sample_questions_interface_answers:
  assumes "k < length sample_questions" and "button inp k"
  shows "\<exists>w w' evs.
      sample_questions_interface x bot' has_openai inp s =
        (Inr (), s\<lparr>world := w', out := out s @ evs\<rparr>) \<and>
      ((\<forall>j<k. \<not> button inp j) \<longrightarrow> w = world s) \<and>
      (if has_openai then
              St ''success''
                ''These questions will be answered using OpenAI LLM with HTS General Notes content''
            else
              St ''warning'' ''These questions will be answered using basic text extraction'') \<in> set evs \<and>
      St ''markdown''
        (response_box (case fst (query x bot' (question (sample_questions ! k)) (s\<lparr>world := w\<rparr>)) of
                         Inr t \<Rightarrow> t
                       | Inl e \<Rightarrow> ''Error: '' @ str_exc e)) \<in> set evs"
proof -
  let ?hdr = "[St ''header'' ''Sample Questions'',
           (if has_openai then
              St ''success''
                ''These questions will be answered using OpenAI LLM with HTS General Notes content''
            else
              St ''warning'' ''These questions will be answered using basic text extraction''),
           St ''write'' ''Try these sample questions to see TariffBot's LLM capabilities:'']"
  let ?s0 = "s\<lparr>out := out s @ ?hdr\<rparr>"
  from assms have b: "button inp (0 + k)" by simp
  from sample_loop_answers [OF assms(1) b, of x bot' has_openai ?s0] obtain w w' evs where
    run: "sample_loop x bot' has_openai inp 0 sample_questions ?s0 =
            (Inr (), ?s0\<lparr>world := w', out := out ?s0 @ evs\<rparr>)"
    and first: "(\<forall>j<k. \<not> button inp (0 + j)) \<longrightarrow> w = world ?s0"
    and ev: "St ''markdown''
        (response_box (case fst (query x bot' (question (sample_questions ! k)) (?s0\<lparr>world := w\<rparr>)) of
                         Inr t \<Rightarrow> t
                       | Inl e \<Rightarrow> ''Error: '' @ str_exc e)) \<in> set evs"
    by blast
  have "sample_questions_interface x bot' has_openai inp s =
        (Inr (), s\<lparr>world := w', out := out s @ (?hdr @ evs)\<rparr>)"
    unfolding sample_questions_interface_unfold run by simp
  moreover have "(\<forall>j<k. \<not> button inp j) \<longrightarrow> w = world s" using first by simp
  moreover have "(if has_openai then
              St ''success''
                ''These questions will be answered using OpenAI LLM with HTS General Notes content''
            else
              St ''warning'' ''These questions will be answered using basic text extraction'') \<in> set (?hdr @ evs)"
    by simp
  moreover have "St ''markdown''
        (response_box (case fst (query x bot' (question (sample_questions ! k)) (s\<lparr>world := w\<rparr>)) of
                         Inr t \<Rightarrow> t
                       | Inl e \<Rightarrow> ''Error: '' @ str_exc e)) \<in> set (?hdr @ evs)"
    using ev query_world [where s = ?s0 and t = s and w = w and p = "question (sample_questions ! k)" and x = x] by simp
  ultimately show ?thesis by blast
qed

text \<open>
  Claim C1, as the code has it. No run of the chat page or of the sample page raises:
  an exception of \<^verbatim>\<open>bot.query\<close> is caught there and made into an answer. When a prompt
  was submitted, the last thing the chat page draws is the answer, and the answer is the
  content of the assistant's message that ends the transcript. On the sample page every
  sample whose button is pressed has its answer among the events the run draws; for the
  first pressed button the question is put to the bot in the world the run started in.
  On both pages the answer is the text \<^verbatim>\<open>bot.query\<close> returned, as it is, and when
  \<^verbatim>\<open>bot.query\<close> raised \<open>e\<close> it is a fixed prefix followed by \<open>str(e)\<close>, which is not empty:
  \<^verbatim>\<open>I encountered an error processing your question: \<close> in the chat and \<^verbatim>\<open>Error: \<close> on
  the sample page. The answer carries no provenance value.
\<close>

theorem interface_converts_query_exceptions:
  fixes s :: "('w, 'b, 'z) appstate_scheme"
  shows "fst (chat_interface x bot' has_openai inp s) = Inr () \<and>
    fst (sample_questions_interface x bot' has_openai inp s) = Inr () \<and>
    (truthy (chat_input inp) \<longrightarrow>
       (\<exists>answer older.
          last (out (snd (chat_interface x bot' has_openai inp s))) =
            St ''markdown'' (response_box answer) \<and>
          messages (snd (chat_interface x bot' has_openai inp s)) =
            Some (older @ [\<lparr>role = ''assistant'', content = answer\<rparr>]) \<and>
          (\<forall>t. fst (query x bot' (str_opt (chat_input inp)) s) = Inr t \<longrightarrow> answer = t) \<and>
          (\<forall>e. fst (query x bot' (str_opt (chat_input inp)) s) = Inl e \<longrightarrow>
             answer = ''I encountered an error processing your question: '' @ str_exc e \<and>
             answer \<noteq> []))) \<and>
    (\<forall>k<length sample_questions. button inp k \<longrightarrow>
       (\<exists>w answer.
          ((\<forall>j<k. \<not> button inp j) \<longrightarrow> w = world s) \<and>
          St ''markdown'' (response_box answer) \<in>
            set (drop (length (out s))
                   (out (snd (sample_questions_interface x bot' has_openai inp s)))) \<and>
          (\<forall>t. fst (query x bot' (question (sample_questions ! k)) (s\<lparr>world := w\<rparr>)) = Inr t \<longrightarrow>
             answer = t) \<and>
          (\<forall>e. fst (query x bot' (question (sample_questions ! k)) (s\<lparr>world := w\<rparr>)) = Inl e \<longrightarrow>
             answer = ''Error: '' @ str_exc e \<and> answer \<noteq> [])))"
proof -
  have chat: "fst (chat_interface x bot' has_openai inp s) = Inr ()"
    using chat_interface_run [of inp x bot' has_openai s]
      chat_interface_idle [of inp x bot' has_openai s]
    by (cases "truthy (chat_input inp)") simp_all
  have samples: "fst (sample_questions_interface x bot' has_openai inp s) = Inr ()"
    using sample_questions_interface_returns [of x bot' has_openai inp s] by auto
  have prompt: "\<exists>answer older.
          last (out (snd (chat_interface x bot' has_openai inp s))) =
            St ''markdown'' (response_box answer) \<and>
          messages (snd (chat_interface x bot' has_openai inp s)) =
            Some (older @ [\<lparr>role = ''assistant'', content = answer\<rparr>]) \<and>
          (\<forall>t. fst (query x bot' (str_opt (chat_input inp)) s) = Inr t \<longrightarrow> answer = t) \<and>
          (\<forall>e. fst (query x bot' (str_opt (chat_input inp)) s) = Inl e \<longrightarrow>
             answer = ''I encountered an error processing your question: '' @ str_exc e \<and>
             answer \<noteq> [])"
    if t: "truthy (chat_input inp)"
  proof -
    let ?answer = "case fst (query x bot' (str_opt (chat_input inp)) s) of
                     Inr t \<Rightarrow> t
                   | Inl e \<Rightarrow> ''I encountered an error processing your question: '' @ str_exc e"
    let ?older = "(case messages s of None \<Rightarrow> [] | Some ms \<Rightarrow> ms) @
                    [\<lparr>role = ''user'', content = str_opt (chat_input inp)\<rparr>]"
    have "last (out (snd (chat_interface x bot' has_openai inp s))) =
            St ''markdown'' (response_box ?answer)"
      by (simp add: chat_interface_run [OF t])
    moreover have "messages (snd (chat_interface x bot' has_openai inp s)) =
            Some (?older @ [\<lparr>role = ''assistant'', content = ?answer\<rparr>])"
      by (simp add: chat_interface_run [OF t])
    moreover have "\<forall>t. fst (query x bot' (str_opt (chat_input inp)) s) = Inr t \<longrightarrow> ?answer = t"
      by simp
    moreover have "\<forall>e. fst (query x bot' (str_opt (chat_input inp)) s) = Inl e \<longrightarrow>
             ?answer = ''I encountered an error processing your question: '' @ str_exc e \<and>
             ?answer \<noteq> []"
      by simp
    ultimately show ?thesis by blast
  qed
  have pressed: "\<exists>w answer.
          ((\<forall>j<k. \<not> button inp j) \<longrightarrow> w = world s) \<and>
          St ''markdown'' (response_box answer) \<in>
            set (drop (length (out s))
                   (out (snd (sample_questions_interface x bot' has_openai inp s)))) \<and>
          (\<forall>t. fst (query x bot' (question (sample_questions ! k)) (s\<lparr>world := w\<rparr>)) = Inr t \<longrightarrow>
             answer = t) \<and>
          (\<forall>e. fst (query x bot' (question (sample_questions ! k)) (s\<lparr>world := w\<rparr>)) = Inl e \<longrightarrow>
             answer = ''Error: '' @ str_exc e \<and> answer \<noteq> [])"
    if k: "k < length sample_questions" and b: "button inp k" for k
  proof -
    from sample_questions_interface_answers [OF k b, of x bot' has_openai s]
    obtain w w' evs where
      run: "sample_questions_interface x bot' has_openai inp s =
              (Inr (), s\<lparr>world := w', out := out s @ evs\<rparr>)"
      and first: "(\<forall>j<k. \<not> button inp j) \<longrightarrow> w = world s"
      and ev: "St ''markdown''
        (response_box (case fst (query x bot' (question (sample_questions ! k)) (s\<lparr>world := w\<rparr>)) of
                         Inr t \<Rightarrow> t
                       | Inl e \<Rightarrow> ''Error: '' @ str_exc e)) \<in> set evs"
      by blast
    let ?answer = "case fst (query x bot' (question (sample_questions ! k)) (s\<lparr>world := w\<rparr>)) of
                         Inr t \<Rightarrow> t
                       | Inl e \<Rightarrow> ''Error: '' @ str_exc e"
    have "St ''markdown'' (response_box ?answer) \<in>
            set (drop (length (out s))
                   (out (snd (sample_questions_interface x bot' has_openai inp s))))"
      using ev by (simp add: run)
    moreover have "\<forall>t. fst (query x bot' (question (sample_questions ! k)) (s\<lparr>world := w\<rparr>)) = Inr t
                     \<longrightarrow> ?answer = t"
      by simp
    moreover have "\<forall>e. fst (query x bot' (question (sample_questions ! k)) (s\<lparr>world := w\<rparr>)) = Inl e
                     \<longrightarrow> ?answer = ''Error: '' @ str_exc e \<and> ?answer \<noteq> []"
      by simp
    ultimately show ?thesis using first by blast
  qed
  from chat samples prompt pressed show ?thesis by blast
qed

text \<open>Witness of C1: a bot whose \<^verbatim>\<open>query\<close> raises \<^verbatim>\<open>Exception("timeout")\<close>. The chat page
  returns and draws the converted message; the sample page, with the fifth button
  pressed, returns and draws \<^verbatim>\<open>Error: timeout\<close>.\<close>

theorem interface_converts_query_exceptions_witness:
  "truthy (chat_input (ask ''duty on donkeys?'')) \<and>
   fst (query (app_with (Inr ()) (\<lambda>q. Inl (Exception ''timeout''))) (Some ())
          (str_opt (chat_input (ask ''duty on donkeys?''))) fresh) = Inl (Exception ''timeout'') \<and>
   fst (chat_interface (app_with (Inr ()) (\<lambda>q. Inl (Exception ''timeout''))) (Some ()) True
          (ask ''duty on donkeys?'') fresh) = Inr () \<and>
   last (out (snd (chat_interface (app_with (Inr ()) (\<lambda>q. Inl (Exception ''timeout''))) (Some ()) True
          (ask ''duty on donkeys?'') fresh))) =
     St ''markdown'' (response_box ''I encountered an error processing your question: timeout'') \<and>
   4 < length sample_questions \<and> button (press 4) 4 \<and> \<not> button (press 4) 3 \<and>
   fst (sample_questions_interface (app_with (Inr ()) (\<lambda>q. Inl (Exception ''timeout''))) (Some ())
          True (press 4) fresh) = Inr () \<and>
   St ''markdown'' (response_box ''Error: timeout'') \<in>
     set (drop (length (out fresh))
            (out (snd (sample_questions_interface
                         (app_with (Inr ()) (\<lambda>q. Inl (Exception ''timeout''))) (Some ())
                         True (press 4) fresh))))"
proof -
  let ?x = "app_with (Inr ()) (\<lambda>q. Inl (Exception ''timeout''))"
  have q: "\<And>p (t :: (nat, unit) appstate). fst (query ?x (Some ()) p t) = Inl (Exception ''timeout'')"
    by (simp add: query_unfold app_with_def)
  have k: "4 < length sample_questions" by (simp add: sample_questions_def)
  have b: "button (press 4) 4" "\<forall>j<4. \<not> button (press 4) j" by (simp_all add: press_def)
  have t: "truthy (chat_input (ask ''duty on donkeys?''))" by (simp add: ask_def)
  note chat = interface_converts_query_exceptions [of ?x "Some ()" True "ask ''duty on donkeys?''" fresh]
  note page = interface_converts_query_exceptions [of ?x "Some ()" True "press 4" fresh]
  from chat t q have c1: "fst (chat_interface ?x (Some ()) True (ask ''duty on donkeys?'') fresh) = Inr ()"
    and c2: "last (out (snd (chat_interface ?x (Some ()) True (ask ''duty on donkeys?'') fresh))) =
     St ''markdown'' (response_box ''I encountered an error processing your question: timeout'')"
    by auto
  from page k b q have p1: "fst (sample_questions_interface ?x (Some ()) True (press 4) fresh) = Inr ()"
    and p2: "St ''markdown'' (response_box ''Error: timeout'') \<in>
     set (drop (length (out fresh))
            (out (snd (sample_questions_interface ?x (Some ()) True (press 4) fresh))))"
    by auto
  from t q k b c1 c2 p1 p2 show ?thesis by (simp add: press_def)
qed

text \<open>Counterexample to C1 as stated: a bot whose \<^verbatim>\<open>query\<close> returns the empty string.
  The chat page draws an empty answer and stores it; a message has a role and a content,
  and no provenance.\<close>

theorem chat_interface_empty_answer:
  "chat_interface (app_with (Inr ()) (\<lambda>q. Inr [])) (Some ()) False (ask ''duty on donkeys?'') fresh =
     (Inr (),
      \<lparr>world = 1,
       out = [St ''header'' ''Chat with TariffBot'',
              St ''warning''
                ''Using basic text extraction (set OPENAI_API_KEY for full LLM functionality)'',
              St ''write''
                ''Ask me anything about HTS tariffs, trade agreements, or duty calculations!'',
              St ''chat_input'' ''Ask about HTS codes, tariffs, or trade agreements...'',
              St ''chat_message'' ''user'', St ''markdown'' ''duty on donkeys?'',
              St ''chat_message'' ''assistant'', St ''spinner'' ''Processing with text extraction...'',
              St ''markdown'' (response_box [])],
       messages = Some [\<lparr>role = ''user'', content = ''duty on donkeys?''\<rparr>,
                        \<lparr>role = ''assistant'', content = []\<rparr>],
       bot_cache = None\<rparr>)"
  by (simp add: chat_interface_def query_def append_message_def st_def app_with_def fresh_def
        ask_def bnd_def ret_def try_except_def Spec2Isabelle.ext_def emit_def)

text \<open>
  Claim C2, as the code has it. A run of the chat page with a prompt appends exactly two
  messages to the transcript, the user's prompt and then the assistant's answer, after
  the messages that were there; a run without a prompt appends nothing. A message is a
  role and a content: the transcript records no provenance.
\<close>

theorem chat_appends_one_exchange:
  fixes s :: "('w, 'b, 'z) appstate_scheme"
  shows "(truthy (chat_input inp) \<longrightarrow>
       messages (snd (chat_interface x bot' has_openai inp s)) =
         Some ((case messages s of None \<Rightarrow> [] | Some ms \<Rightarrow> ms) @
               [\<lparr>role = ''user'', content = str_opt (chat_input inp)\<rparr>,
                \<lparr>role = ''assistant'',
                 content =
                   (case fst (query x bot' (str_opt (chat_input inp)) s) of
                      Inr t \<Rightarrow> t
                    | Inl e \<Rightarrow>
                        ''I encountered an error processing your question: '' @ str_exc e)\<rparr>])) \<and>
    (\<not> truthy (chat_input inp) \<longrightarrow>
       messages (snd (chat_interface x bot' has_openai inp s)) =
         Some (case messages s of None \<Rightarrow> [] | Some ms \<Rightarrow> ms))"
  using chat_interface_run [of inp x bot' has_openai s]
    chat_interface_idle [of inp x bot' has_openai s]
  by (cases "truthy (chat_input inp)") simp_all

text \<open>Witness of C2: one prompt in a session that already holds one exchange.\<close>

theorem chat_appends_one_exchange_witness:
  "truthy (chat_input (ask ''duty on donkeys?'')) \<and>
   messages (snd (chat_interface (app_with (Inr ()) (\<lambda>q. Inr ''Free of duty.'')) (Some ()) False
      (ask ''duty on donkeys?'')
      (fresh\<lparr>messages := Some [\<lparr>role = ''user'', content = ''hello''\<rparr>,
                                \<lparr>role = ''assistant'', content = ''Ask me about tariffs.''\<rparr>]\<rparr>))) =
     Some [\<lparr>role = ''user'', content = ''hello''\<rparr>,
           \<lparr>role = ''assistant'', content = ''Ask me about tariffs.''\<rparr>,
           \<lparr>role = ''user'', content = ''duty on donkeys?''\<rparr>,
           \<lparr>role = ''assistant'', content = ''Free of duty.''\<rparr>]"
  using chat_appends_one_exchange
    [of "ask ''duty on donkeys?''" "app_with (Inr ()) (\<lambda>q. Inr ''Free of duty.'')" "Some ()" False
        "fresh\<lparr>messages := Some [\<lparr>role = ''user'', content = ''hello''\<rparr>,
                                  \<lparr>role = ''assistant'', content = ''Ask me about tariffs.''\<rparr>]\<rparr>"]
  by (simp add: query_unfold app_with_def ask_def fresh_def)

text \<open>
  Counterexample to C2 as stated. One bot returns a text; another raises, and the chat
  page makes the same text from the exception. With the API key set, the two runs end
  in the same state: the same events are drawn and the same transcript is stored, so
  nothing tells the answer of the bot from the fallback of the page. On the sample page,
  with the key set and a bot that raises, the error text is followed by the line saying
  that the response was generated by the LLM.
\<close>

theorem transcript_hides_fallback:
  "fst (query (app_with (Inr ())
                 (\<lambda>q. Inr ''I encountered an error processing your question: timeout''))
          (Some ()) ''duty on donkeys?'' fresh) =
     Inr ''I encountered an error processing your question: timeout'' \<and>
   fst (query (app_with (Inr ()) (\<lambda>q. Inl (Exception ''timeout'')))
          (Some ()) ''duty on donkeys?'' fresh) = Inl (Exception ''timeout'') \<and>
   chat_interface (app_with (Inr ())
                     (\<lambda>q. Inr ''I encountered an error processing your question: timeout''))
     (Some ()) True (ask ''duty on donkeys?'') fresh =
   chat_interface (app_with (Inr ()) (\<lambda>q. Inl (Exception ''timeout'')))
     (Some ()) True (ask ''duty on donkeys?'') fresh \<and>
   drop 19 (out (snd (sample_questions_interface
                        (app_with (Inr ()) (\<lambda>q. Inl (Exception ''timeout'')))
                        (Some ()) True (press 4) fresh))) =
     [St ''markdown'' (response_box ''Error: timeout''),
      St ''info'' ''Response generated using OpenAI LLM with HTS General Notes content'']"
  by (simp add: chat_interface_def sample_questions_interface_def sample_questions_def
        query_def append_message_def st_def app_with_def fresh_def ask_def press_def
        bnd_def ret_def try_except_def Spec2Isabelle.ext_def emit_def)

subsection \<open>One run of main\<close>

lemma check_openai_setup_run:
  "check_openai_setup x s = (Inr (getenv x (world s) ''OPENAI_API_KEY'' \<noteq> None), s)"
  by (simp add: check_openai_setup_def bnd_def read_world_def ret_def)

text \<open>\<open>initialize_bot\<close> never raises, and leaves what it returns in the cache.\<close>

lemma initialize_bot_body_returns: "\<exists>r s'. initialize_bot_body x s = (Inr r, s')"
  unfolding initialize_bot_body_def by (rule try_except_returns) (simp add: ret_def)

lemma initialize_bot_returns:
  "\<exists>r s'. initialize_bot x s = (Inr r, s') \<and> bot_cache s' = Some r"
proof (cases "bot_cache s")
  case None
  obtain r s1 where "initialize_bot_body x s = (Inr r, s1)"
    using initialize_bot_body_returns [of x s] by blast
  with None show ?thesis by (simp add: initialize_bot_def)
next
  case (Some r)
  then show ?thesis by (simp add: initialize_bot_def)
qed

text \<open>It returns the second form, \<^verbatim>\<open>(None, str(e))\<close>, or the first, \<^verbatim>\<open>(bot, None)\<close>, when
  the body has run.\<close>

lemma initialize_bot_body_forms:
  "initialize_bot_body x s = (Inr r, s') \<Longrightarrow>
     (\<exists>b. r = (Some b, None)) \<or> (\<exists>e. r = (None, Some (str_exc e)))"
  by (auto simp add: initialize_bot_body_def st_def bnd_def ret_def try_except_def
        Spec2Isabelle.ext_def read_world_def emit_def
      split: prod.splits sum.splits if_splits)

text \<open>\<open>main\<close> after the banner and the initialisation.\<close>

lemma main_run:
  fixes s :: "('w, 'b, 'z) appstate_scheme" and x :: "('w, 'b) app_ext"
  defines "has_openai \<equiv> getenv x (world s) ''OPENAI_API_KEY'' \<noteq> None"
  defines "banner \<equiv> [St ''markdown'' ''TariffBot'',
       St ''markdown'' ''Intelligent Assistant with Real LLM Responses'',
       St ''markdown''
         (if has_openai then ''OpenAI API Key Detected - Full LLM functionality enabled''
          else ''OpenAI API Key Not Found ... The system will use basic text extraction as fallback.'')]"
  assumes init: "initialize_bot x (s\<lparr>out := out s @ banner\<rparr>) = (Inr (bot', error), s1)"
  shows "main x inp s =
     (if truthy error then
        (Inr Stopped,
         s1\<lparr>out := out s1 @ [St ''error'' (''Failed to initialize TariffBot: '' @ str_opt error),
                             St ''stop'' []]\<rparr>)
      else
        bnd (if selected_mode inp = ''Chat with TariffBot'' then
               chat_interface x bot' has_openai inp
             else if selected_mode inp = ''Sample Questions'' then
               sample_questions_interface x bot' has_openai inp
             else if selected_mode inp = ''Setup Guide'' then setup_guide_interface x
             else if selected_mode inp = ''About'' then about_interface
             else ret ()) (\<lambda>_. ret Completed)
          (s1\<lparr>out := out s1 @ [St ''sidebar.title'' ''Navigation'',
                              St ''sidebar.selectbox'' ''Choose Mode'']\<rparr>))"
proof -
  have "main x inp s =
     bnd (initialize_bot x) (\<lambda>(bot', error).
     if truthy error then
       bnd (st ''error'' (''Failed to initialize TariffBot: '' @ str_opt error)) (\<lambda>_.
       bnd (st ''stop'' []) (\<lambda>_.
       ret Stopped))
     else
     bnd (st ''sidebar.title'' ''Navigation'') (\<lambda>_.
     bnd (st ''sidebar.selectbox'' ''Choose Mode'') (\<lambda>_.
     bnd (ret (selected_mode inp)) (\<lambda>mode.
     bnd (if mode = ''Chat with TariffBot'' then chat_interface x bot' has_openai inp
          else if mode = ''Sample Questions'' then sample_questions_interface x bot' has_openai inp
          else if mode = ''Setup Guide'' then setup_guide_interface x
          else if mode = ''About'' then about_interface
          else ret ()) (\<lambda>_.
     ret Completed))))) (s\<lparr>out := out s @ banner\<rparr>)"
    unfolding main_def banner_def has_openai_def
    by (simp add: st_def bnd_emit
          bnd_Inr [where m = "check_openai_setup x", OF check_openai_setup_run]
          cong: if_cong)
  also have "\<dots> = (if truthy error then
        (Inr Stopped,
         s1\<lparr>out := out s1 @ [St ''error'' (''Failed to initialize TariffBot: '' @ str_opt error),
                             St ''stop'' []]\<rparr>)
      else
        bnd (if selected_mode inp = ''Chat with TariffBot'' then
               chat_interface x bot' has_openai inp
             else if selected_mode inp = ''Sample Questions'' then
               sample_questions_interface x bot' has_openai inp
             else if selected_mode inp = ''Setup Guide'' then setup_guide_interface x
             else if selected_mode inp = ''About'' then about_interface
             else ret ()) (\<lambda>_. ret Completed)
          (s1\<lparr>out := out s1 @ [St ''sidebar.title'' ''Navigation'',
                              St ''sidebar.selectbox'' ''Choose Mode'']\<rparr>))"
    by (simp add: bnd_Inr [where m = "initialize_bot x", OF init] st_def bnd_emit bnd_ret ret_def)
  finally show ?thesis .
qed

text \<open>When the error text is not empty, \<open>main\<close> draws it and stops: the transcript is the
  one the initialisation left, and no page is drawn.\<close>

lemma main_stops_on_error:
  fixes s :: "('w, 'b, 'z) appstate_scheme" and x :: "('w, 'b) app_ext"
  assumes "initialize_bot x
       (s\<lparr>out := out s @
          [St ''markdown'' ''TariffBot'',
           St ''markdown'' ''Intelligent Assistant with Real LLM Responses'',
           St ''markdown''
             (if getenv x (world s) ''OPENAI_API_KEY'' \<noteq> None then
                ''OpenAI API Key Detected - Full LLM functionality enabled''
              else
                ''OpenAI API Key Not Found ... The system will use basic text extraction as fallback.'')]\<rparr>)
       = (Inr (bot', error), s1)"
    and "truthy error"
  shows "main x inp s =
           (Inr Stopped,
            s1\<lparr>out := out s1 @ [St ''error'' (''Failed to initialize TariffBot: '' @ str_opt error),
                                St ''stop'' []]\<rparr>)"
  using main_run [OF assms(1), of inp] assms(2) by simp

text \<open>A first run in which the imports and \<^verbatim>\<open>create_tariff_bot()\<close> come back makes the bot.\<close>

lemma initialize_bot_made:
  fixes s :: "('w, 'b, 'z) appstate_scheme"
  assumes "bot_cache s = None"
    and "import_module x ''agent_real_llm'' (world s) = (Inr (), w1)"
    and "import_module x ''database'' w1 = (Inr (), w2)"
    and "if path_exists x w2 ''data/hts_data.db'' then w3 = w2
         else (\<exists>r. setup_database x w2 = (Inr r, w3))"
    and "create_tariff_bot x w3 = (Inr b, w4)"
  shows "\<exists>evs. initialize_bot x s =
           (Inr (Some b, None),
            s\<lparr>world := w4, out := out s @ evs, bot_cache := Some (Some b, None)\<rparr>)"
proof (cases "path_exists x w2 ''data/hts_data.db''")
  case True
  with assms have "initialize_bot x s =
           (Inr (Some b, None),
            s\<lparr>world := w4, out := out s @ [St ''spinner'' ''Initializing TariffBot with LLM...''],
              bot_cache := Some (Some b, None)\<rparr>)"
    by (simp add: initialize_bot_def initialize_bot_body_def st_def bnd_def ret_def try_except_def
          Spec2Isabelle.ext_def read_world_def emit_def)
  then show ?thesis by blast
next
  case False
  with assms obtain r where "setup_database x w2 = (Inr r, w3)" by auto
  with False assms have "initialize_bot x s =
           (Inr (Some b, None),
            s\<lparr>world := w4,
              out := out s @ [St ''spinner'' ''Setting up database for first time use...'',
                              St ''spinner'' ''Initializing TariffBot with LLM...''],
              bot_cache := Some (Some b, None)\<rparr>)"
    by (simp add: initialize_bot_def initialize_bot_body_def st_def bnd_def ret_def try_except_def
          Spec2Isabelle.ext_def read_world_def emit_def)
  then show ?thesis by blast
qed

lemma static_pages_effect:
  fixes s :: "('w, 'z) pystate_scheme"
  shows "\<exists>evs. setup_guide_interface x s = (Inr (), s\<lparr>out := out s @ evs\<rparr>)"
    and "\<exists>evs. about_interface s = (Inr (), s\<lparr>out := out s @ evs\<rparr>)"
proof -
  have "setup_guide_interface x s =
      (Inr (), s\<lparr>out := out s @
         [St ''header'' ''Setup Guide for Full LLM Functionality'',
          St ''markdown'' ''### Step 1: Get OpenAI API Key ...'',
          (if getenv x (world s) ''OPENAI_API_KEY'' \<noteq> None then
             St ''success'' ''OpenAI API Key is configured! You're getting full LLM functionality.''
           else
             St ''warning''
               ''OpenAI API Key not found. Follow the steps above to enable full LLM functionality.'')]\<rparr>)"
    by (simp add: setup_guide_interface_def st_def bnd_emit emit_def
          bnd_Inr [where m = "check_openai_setup x", OF check_openai_setup_run])
  then show "\<exists>evs. setup_guide_interface x s = (Inr (), s\<lparr>out := out s @ evs\<rparr>)" by blast
  have "about_interface s =
      (Inr (), s\<lparr>out := out s @
         [St ''header'' ''About TariffBot with Real LLM'',
          St ''markdown'' ''**TariffBot** uses real Large Language Models (LLMs) ...'']\<rparr>)"
    by (simp add: about_interface_def st_def bnd_emit emit_def)
  then show "\<exists>evs. about_interface s = (Inr (), s\<lparr>out := out s @ evs\<rparr>)" by blast
qed

text \<open>Whatever page is selected, it returns, appends to the output and leaves the
  cache alone.\<close>

lemma page_effect:
  fixes s :: "('w, 'b, 'z) appstate_scheme"
  shows "\<exists>w' evs m'.
     (if selected_mode inp = ''Chat with TariffBot'' then
               chat_interface x bot' has_openai inp
             else if selected_mode inp = ''Sample Questions'' then
               sample_questions_interface x bot' has_openai inp
             else if selected_mode inp = ''Setup Guide'' then setup_guide_interface x
             else if selected_mode inp = ''About'' then about_interface
             else ret ()) s = (Inr (), s\<lparr>world := w', out := out s @ evs, messages := m'\<rparr>)"
    (is "\<exists>w' evs m'. ?page s = _")
proof -
  consider (chat) "selected_mode inp = ''Chat with TariffBot''"
    | (samples) "selected_mode inp \<noteq> ''Chat with TariffBot''" "selected_mode inp = ''Sample Questions''"
    | (guide) "selected_mode inp \<noteq> ''Chat with TariffBot''" "selected_mode inp \<noteq> ''Sample Questions''"
        "selected_mode inp = ''Setup Guide''"
    | (about) "selected_mode inp \<noteq> ''Chat with TariffBot''" "selected_mode inp \<noteq> ''Sample Questions''"
        "selected_mode inp \<noteq> ''Setup Guide''" "selected_mode inp = ''About''"
    | (none) "selected_mode inp \<noteq> ''Chat with TariffBot''" "selected_mode inp \<noteq> ''Sample Questions''"
        "selected_mode inp \<noteq> ''Setup Guide''" "selected_mode inp \<noteq> ''About''"
    by blast
  then show ?thesis
  proof cases
    case chat
    then have page: "?page = chat_interface x bot' has_openai inp" by simp
    obtain w' evs m' where "chat_interface x bot' has_openai inp s =
        (Inr (), s\<lparr>world := w', out := out s @ evs, messages := m'\<rparr>)"
    proof (cases "truthy (chat_input inp)")
      case True
      from chat_interface_run [OF True, of x bot' has_openai s] that show ?thesis by blast
    next
      case False
      have "s\<lparr>out := out s @ evs, messages := m\<rparr> =
            s\<lparr>world := world s, out := out s @ evs, messages := m\<rparr>" for evs m
        by simp
      with chat_interface_idle [OF False, of x bot' has_openai s] that show ?thesis by metis
    qed
    then show ?thesis unfolding page by blast
  next
    case samples
    then have page: "?page = sample_questions_interface x bot' has_openai inp" by simp
    obtain w' evs where "sample_questions_interface x bot' has_openai inp s =
        (Inr (), s\<lparr>world := w', out := out s @ evs\<rparr>)"
    proof -
      let ?hdr = "[St ''header'' ''Sample Questions'',
           (if has_openai then
              St ''success''
                ''These questions will be answered using OpenAI LLM with HTS General Notes content''
            else
              St ''warning'' ''These questions will be answered using basic text extraction''),
           St ''write'' ''Try these sample questions to see TariffBot's LLM capabilities:'']"
      let ?s0 = "s\<lparr>out := out s @ ?hdr\<rparr>"
      from sample_loop_effect [of x bot' has_openai inp 0 sample_questions ?s0]
      obtain w' evs where "sample_loop x bot' has_openai inp 0 sample_questions ?s0 =
          (Inr (), ?s0\<lparr>world := w', out := out ?s0 @ evs\<rparr>)" by blast
      then have "sample_questions_interface x bot' has_openai inp s =
          (Inr (), s\<lparr>world := w', out := out s @ (?hdr @ evs)\<rparr>)"
        unfolding sample_questions_interface_unfold by simp
      then show ?thesis using that by blast
    qed
    moreover have "s\<lparr>world := w', out := out s @ evs\<rparr> =
        s\<lparr>world := w', out := out s @ evs, messages := messages s\<rparr>" by simp
    ultimately show ?thesis unfolding page by metis
  next
    case guide
    then have page: "?page = setup_guide_interface x" by simp
    obtain evs where "setup_guide_interface x s = (Inr (), s\<lparr>out := out s @ evs\<rparr>)"
      using static_pages_effect(1) [of x s] by blast
    moreover have "s\<lparr>out := out s @ evs\<rparr> =
        s\<lparr>world := world s, out := out s @ evs, messages := messages s\<rparr>" by simp
    ultimately show ?thesis unfolding page by metis
  next
    case about
    then have page: "?page = about_interface" by simp
    obtain evs where "about_interface s = (Inr (), s\<lparr>out := out s @ evs\<rparr>)"
      using static_pages_effect(2) [of s] by blast
    moreover have "s\<lparr>out := out s @ evs\<rparr> =
        s\<lparr>world := world s, out := out s @ evs, messages := messages s\<rparr>" by simp
    ultimately show ?thesis unfolding page by metis
  next
    case none
    then have page: "?page = ret ()" by simp
    have "ret () s = (Inr (), s\<lparr>world := world s, out := out s @ [], messages := messages s\<rparr>)"
      by (simp add: ret_def)
    then show ?thesis unfolding page by blast
  qed
qed

text \<open>
  Claim C5, as the code has it. \<open>check_openai_setup\<close> returns \<open>True\<close> exactly when the
  environment variable \<^verbatim>\<open>OPENAI_API_KEY\<close> is set. When it is not set, \<open>main\<close> draws the
  warning and calls \<open>initialize_bot\<close> all the same. Once the bot is made (in a first
  run the two imports, the set-up of the database when its file is missing, and
  \<^verbatim>\<open>create_tariff_bot()\<close> come back; in a later run the made bot is in the cache),
  every run completes with that bot in the cache, and every submitted query is
  answered under the warning of the page: the chat page puts the prompt to the bot and
  appends the prompt and the answer to the transcript, and the sample page draws the
  answer of every pressed sample, asking the bot for the first pressed one in the world
  the initialisation left.
\<close>

theorem no_key_serves_once_bot_is_made:
  fixes s :: "('w, 'b, 'z) appstate_scheme"
  shows "fst (check_openai_setup x s) = Inr (getenv x (world s) ''OPENAI_API_KEY'' \<noteq> None) \<and>
    (getenv x (world s) ''OPENAI_API_KEY'' = None \<and>
     ((bot_cache s = None \<and>
       import_module x ''agent_real_llm'' (world s) = (Inr (), w1) \<and>
       import_module x ''database'' w1 = (Inr (), w2) \<and>
       (if path_exists x w2 ''data/hts_data.db'' then w3 = w2
        else (\<exists>r. setup_database x w2 = (Inr r, w3))) \<and>
       create_tariff_bot x w3 = (Inr b, w4)) \<or>
      (bot_cache s = Some (Some b, None) \<and> w4 = world s)) \<longrightarrow>
       fst (main x inp s) = Inr Completed \<and>
       bot_cache (snd (main x inp s)) = Some (Some b, None) \<and>
       St ''markdown''
         ''OpenAI API Key Not Found ... The system will use basic text extraction as fallback.''
         \<in> set (drop (length (out s)) (out (snd (main x inp s)))) \<and>
       (selected_mode inp = ''Chat with TariffBot'' \<and> truthy (chat_input inp) \<longrightarrow>
          world (snd (main x inp s)) = snd (bot_query x b (str_opt (chat_input inp)) w4) \<and>
          messages (snd (main x inp s)) =
            Some ((case messages s of None \<Rightarrow> [] | Some ms \<Rightarrow> ms) @
                  [\<lparr>role = ''user'', content = str_opt (chat_input inp)\<rparr>,
                   \<lparr>role = ''assistant'',
                    content =
                      (case fst (bot_query x b (str_opt (chat_input inp)) w4) of
                         Inr t \<Rightarrow> t
                       | Inl e \<Rightarrow>
                           ''I encountered an error processing your question: '' @ str_exc e)\<rparr>]) \<and>
          St ''warning''
            ''Using basic text extraction (set OPENAI_API_KEY for full LLM functionality)''
            \<in> set (drop (length (out s)) (out (snd (main x inp s))))) \<and>
       (selected_mode inp = ''Sample Questions'' \<longrightarrow>
          St ''warning'' ''These questions will be answered using basic text extraction''
            \<in> set (drop (length (out s)) (out (snd (main x inp s)))) \<and>
          (\<forall>k<length sample_questions. button inp k \<longrightarrow>
             (\<exists>w. ((\<forall>j<k. \<not> button inp j) \<longrightarrow> w = w4) \<and>
                  St ''markdown''
                    (response_box
                       (case fst (bot_query x b (question (sample_questions ! k)) w) of
                          Inr t \<Rightarrow> t
                        | Inl e \<Rightarrow> ''Error: '' @ str_exc e))
                    \<in> set (drop (length (out s)) (out (snd (main x inp s))))))))"
proof (intro conjI impI)
  show "fst (check_openai_setup x s) = Inr (getenv x (world s) ''OPENAI_API_KEY'' \<noteq> None)"
    by (simp add: check_openai_setup_run)
next
  let ?banner = "[St ''markdown'' ''TariffBot'',
           St ''markdown'' ''Intelligent Assistant with Real LLM Responses'',
           St ''markdown''
             ''OpenAI API Key Not Found ... The system will use basic text extraction as fallback.'']"
  let ?s0 = "s\<lparr>out := out s @ ?banner\<rparr>"
  let ?sidebar = "[St ''sidebar.title'' ''Navigation'', St ''sidebar.selectbox'' ''Choose Mode'']"
  let ?page = "if selected_mode inp = ''Chat with TariffBot'' then
               chat_interface x (Some b) False inp
             else if selected_mode inp = ''Sample Questions'' then
               sample_questions_interface x (Some b) False inp
             else if selected_mode inp = ''Setup Guide'' then setup_guide_interface x
             else if selected_mode inp = ''About'' then about_interface
             else ret ()"
  assume h: "getenv x (world s) ''OPENAI_API_KEY'' = None \<and>
     ((bot_cache s = None \<and>
       import_module x ''agent_real_llm'' (world s) = (Inr (), w1) \<and>
       import_module x ''database'' w1 = (Inr (), w2) \<and>
       (if path_exists x w2 ''data/hts_data.db'' then w3 = w2
        else (\<exists>r. setup_database x w2 = (Inr r, w3))) \<and>
       create_tariff_bot x w3 = (Inr b, w4)) \<or>
      (bot_cache s = Some (Some b, None) \<and> w4 = world s))"
  then have nokey: "getenv x (world s) ''OPENAI_API_KEY'' = None" by blast
  obtain evs where init: "initialize_bot x ?s0 =
      (Inr (Some b, None),
       ?s0\<lparr>world := w4, out := out ?s0 @ evs, bot_cache := Some (Some b, None)\<rparr>)"
  proof -
    from h have "(bot_cache s = None \<and>
       import_module x ''agent_real_llm'' (world s) = (Inr (), w1) \<and>
       import_module x ''database'' w1 = (Inr (), w2) \<and>
       (if path_exists x w2 ''data/hts_data.db'' then w3 = w2
        else (\<exists>r. setup_database x w2 = (Inr r, w3))) \<and>
       create_tariff_bot x w3 = (Inr b, w4)) \<or>
      (bot_cache s = Some (Some b, None) \<and> w4 = world s)"
      by (rule conjunct2)
    then show ?thesis
    proof (elim disjE conjE)
      assume first: "bot_cache s = None"
        "import_module x ''agent_real_llm'' (world s) = (Inr (), w1)"
        "import_module x ''database'' w1 = (Inr (), w2)"
        "if path_exists x w2 ''data/hts_data.db'' then w3 = w2
         else (\<exists>r. setup_database x w2 = (Inr r, w3))"
        "create_tariff_bot x w3 = (Inr b, w4)"
      have "\<exists>evs. initialize_bot x ?s0 =
           (Inr (Some b, None),
            ?s0\<lparr>world := w4, out := out ?s0 @ evs, bot_cache := Some (Some b, None)\<rparr>)"
        by (rule initialize_bot_made [where ?w1.0 = w1 and ?w2.0 = w2 and ?w3.0 = w3])
           (simp_all add: first)
      then show ?thesis using that by blast
    next
      assume cached: "bot_cache s = Some (Some b, None)" "w4 = world s"
      then have "initialize_bot x ?s0 =
        (Inr (Some b, None),
         ?s0\<lparr>world := w4, out := out ?s0 @ [], bot_cache := Some (Some b, None)\<rparr>)"
        by (simp add: initialize_bot_def)
      then show ?thesis using that by blast
    qed
  qed
  let ?s1 = "?s0\<lparr>world := w4, out := out ?s0 @ evs, bot_cache := Some (Some b, None)\<rparr>"
  let ?s2 = "?s1\<lparr>out := out ?s1 @ ?sidebar\<rparr>"
  have m: "main x inp s = bnd ?page (\<lambda>_. ret Completed) ?s2"
    using main_run [of x s "Some b" None ?s1 inp] init nokey by simp
  obtain w' evs' m' where page: "?page ?s2 =
      (Inr (), ?s2\<lparr>world := w', out := out ?s2 @ evs', messages := m'\<rparr>)"
    using page_effect [of inp x "Some b" False ?s2] by blast
  have final: "main x inp s =
      (Inr Completed, ?s2\<lparr>world := w', out := out ?s2 @ evs', messages := m'\<rparr>)"
    unfolding m bnd_Inr [where m = ?page and f = "\<lambda>_. ret Completed", OF page]
    by (simp only: ret_def)
  have out_final: "out (snd (main x inp s)) = out s @ (?banner @ evs @ ?sidebar @ evs')"
    unfolding final by simp
  show "fst (main x inp s) = Inr Completed" unfolding final by simp
  show "bot_cache (snd (main x inp s)) = Some (Some b, None)" unfolding final by simp
  show "St ''markdown''
         ''OpenAI API Key Not Found ... The system will use basic text extraction as fallback.''
         \<in> set (drop (length (out s)) (out (snd (main x inp s))))"
    unfolding out_final by simp
  {
    assume c: "selected_mode inp = ''Chat with TariffBot'' \<and> truthy (chat_input inp)"
    then have t: "truthy (chat_input inp)" and pc: "?page = chat_interface x (Some b) False inp"
      by simp_all
    note run = chat_interface_run [OF t, of x "Some b" False ?s2]
    have mc: "main x inp s = bnd (chat_interface x (Some b) False inp) (\<lambda>_. ret Completed) ?s2"
      by (simp only: m pc)
    have mcf: "main x inp s = (Inr Completed, snd (chat_interface x (Some b) False inp ?s2))"
      unfolding mc
        bnd_Inr [where m = "chat_interface x (Some b) False inp" and f = "\<lambda>_. ret Completed",
                 OF run]
      by (simp only: ret_def snd_conv run)
    show "world (snd (main x inp s)) = snd (bot_query x b (str_opt (chat_input inp)) w4)"
      unfolding mcf run by (simp add: query_unfold)
    show "messages (snd (main x inp s)) =
            Some ((case messages s of None \<Rightarrow> [] | Some ms \<Rightarrow> ms) @
                  [\<lparr>role = ''user'', content = str_opt (chat_input inp)\<rparr>,
                   \<lparr>role = ''assistant'',
                    content =
                      (case fst (bot_query x b (str_opt (chat_input inp)) w4) of
                         Inr t \<Rightarrow> t
                       | Inl e \<Rightarrow>
                           ''I encountered an error processing your question: '' @ str_exc e)\<rparr>])"
      unfolding mcf run by (simp add: query_unfold)
    show "St ''warning''
            ''Using basic text extraction (set OPENAI_API_KEY for full LLM functionality)''
            \<in> set (drop (length (out s)) (out (snd (main x inp s))))"
      unfolding mcf run by simp
  }
  {
    assume sp: "selected_mode inp = ''Sample Questions''"
    then have ps: "?page = sample_questions_interface x (Some b) False inp" by simp
    have ms: "main x inp s =
        bnd (sample_questions_interface x (Some b) False inp) (\<lambda>_. ret Completed) ?s2"
      by (simp only: m ps)
    have msf: "main x inp s = (Inr Completed, snd (sample_questions_interface x (Some b) False inp ?s2))"
      if "sample_questions_interface x (Some b) False inp ?s2 = (Inr (), t)" for t
      unfolding ms
        bnd_Inr [where m = "sample_questions_interface x (Some b) False inp"
                   and f = "\<lambda>_. ret Completed", OF that]
      by (simp only: ret_def snd_conv that)
    obtain w0 evs0 where run0: "sample_questions_interface x (Some b) False inp ?s2 =
        (Inr (), ?s2\<lparr>world := w0, out := out ?s2 @
           ([St ''header'' ''Sample Questions'',
             St ''warning'' ''These questions will be answered using basic text extraction'',
             St ''write'' ''Try these sample questions to see TariffBot's LLM capabilities:'']
            @ evs0)\<rparr>)"
    proof -
      let ?t = "?s2\<lparr>out := out ?s2 @
          [St ''header'' ''Sample Questions'',
           St ''warning'' ''These questions will be answered using basic text extraction'',
           St ''write'' ''Try these sample questions to see TariffBot's LLM capabilities:'']\<rparr>"
      from sample_loop_effect [of x "Some b" False inp 0 sample_questions ?t]
      obtain w0 evs0 where "sample_loop x (Some b) False inp 0 sample_questions ?t =
          (Inr (), ?t\<lparr>world := w0, out := out ?t @ evs0\<rparr>)" by blast
      then have "sample_questions_interface x (Some b) False inp ?s2 =
        (Inr (), ?s2\<lparr>world := w0, out := out ?s2 @
           ([St ''header'' ''Sample Questions'',
             St ''warning'' ''These questions will be answered using basic text extraction'',
             St ''write'' ''Try these sample questions to see TariffBot's LLM capabilities:'']
            @ evs0)\<rparr>)"
        unfolding sample_questions_interface_unfold by simp
      then show ?thesis using that by blast
    qed
    show "St ''warning'' ''These questions will be answered using basic text extraction''
            \<in> set (drop (length (out s)) (out (snd (main x inp s))))"
      unfolding msf [OF run0] run0 by simp
    show "\<forall>k<length sample_questions. button inp k \<longrightarrow>
             (\<exists>w. ((\<forall>j<k. \<not> button inp j) \<longrightarrow> w = w4) \<and>
                  St ''markdown''
                    (response_box
                       (case fst (bot_query x b (question (sample_questions ! k)) w) of
                          Inr t \<Rightarrow> t
                        | Inl e \<Rightarrow> ''Error: '' @ str_exc e))
                    \<in> set (drop (length (out s)) (out (snd (main x inp s)))))"
    proof (intro allI impI)
      fix k
      assume k: "k < length sample_questions" and bk: "button inp k"
      from sample_questions_interface_answers [OF k bk, of x "Some b" False ?s2]
      obtain w w'' evs'' where
        run: "sample_questions_interface x (Some b) False inp ?s2 =
                (Inr (), ?s2\<lparr>world := w'', out := out ?s2 @ evs''\<rparr>)"
        and first: "(\<forall>j<k. \<not> button inp j) \<longrightarrow> w = world ?s2"
        and ev: "St ''markdown''
          (response_box (case fst (query x (Some b) (question (sample_questions ! k))
                                     (?s2\<lparr>world := w\<rparr>)) of
                           Inr t \<Rightarrow> t
                         | Inl e \<Rightarrow> ''Error: '' @ str_exc e)) \<in> set evs''"
        by blast
      have "St ''markdown''
                    (response_box
                       (case fst (bot_query x b (question (sample_questions ! k)) w) of
                          Inr t \<Rightarrow> t
                        | Inl e \<Rightarrow> ''Error: '' @ str_exc e))
                    \<in> set (drop (length (out s)) (out (snd (main x inp s))))"
        using ev unfolding msf [OF run] run by (simp add: query_unfold)
      moreover have "(\<forall>j<k. \<not> button inp j) \<longrightarrow> w = w4" using first by simp
      ultimately show "\<exists>w. ((\<forall>j<k. \<not> button inp j) \<longrightarrow> w = w4) \<and>
                  St ''markdown''
                    (response_box
                       (case fst (bot_query x b (question (sample_questions ! k)) w) of
                          Inr t \<Rightarrow> t
                        | Inl e \<Rightarrow> ''Error: '' @ str_exc e))
                    \<in> set (drop (length (out s)) (out (snd (main x inp s))))"
        by blast
    qed
  }
qed

text \<open>Witness of C5: a first run without an API key in which the bot is made and
  answers, once with a prompt on the chat page and once with the fourth sample
  pressed.\<close>

theorem no_key_serves_once_bot_is_made_witness:
  "getenv (app_with (Inr ()) (\<lambda>q. Inr ''Free of duty.'')) (world fresh) ''OPENAI_API_KEY'' = None \<and>
   bot_cache fresh = None \<and>
   create_tariff_bot (app_with (Inr ()) (\<lambda>q. Inr ''Free of duty.'')) 2 = (Inr (), 3) \<and>
   fst (main (app_with (Inr ()) (\<lambda>q. Inr ''Free of duty.'')) (ask ''duty on donkeys?'') fresh)
     = Inr Completed \<and>
   bot_cache (snd (main (app_with (Inr ()) (\<lambda>q. Inr ''Free of duty.''))
                     (ask ''duty on donkeys?'') fresh)) = Some (Some (), None) \<and>
   world (snd (main (app_with (Inr ()) (\<lambda>q. Inr ''Free of duty.''))
                 (ask ''duty on donkeys?'') fresh)) = 4 \<and>
   messages (snd (main (app_with (Inr ()) (\<lambda>q. Inr ''Free of duty.''))
                    (ask ''duty on donkeys?'') fresh)) =
     Some [\<lparr>role = ''user'', content = ''duty on donkeys?''\<rparr>,
           \<lparr>role = ''assistant'', content = ''Free of duty.''\<rparr>] \<and>
   St ''markdown'' (response_box ''Free of duty.'') \<in>
     set (drop (length (out fresh))
            (out (snd (main (app_with (Inr ()) (\<lambda>q. Inr ''Free of duty.'')) (press 3) fresh))))"
proof -
  let ?x = "app_with (Inr ()) (\<lambda>q. Inr ''Free of duty.'')"
  have key: "getenv ?x (world fresh) ''OPENAI_API_KEY'' = None"
    by (simp add: app_with_def)
  have cache: "bot_cache fresh = None" by (simp add: fresh_def)
  have create: "create_tariff_bot ?x 2 = (Inr (), 3)" by (simp add: app_with_def)
  have made: "(bot_cache fresh = None \<and>
       import_module ?x ''agent_real_llm'' (world fresh) = (Inr (), 1) \<and>
       import_module ?x ''database'' 1 = (Inr (), 2) \<and>
       (if path_exists ?x 2 ''data/hts_data.db'' then (2::nat) = 2
        else (\<exists>r. setup_database ?x 2 = (Inr r, 2))) \<and>
       create_tariff_bot ?x 2 = (Inr (), 3)) \<or>
      (bot_cache fresh = Some (Some (), None) \<and> 3 = world fresh)"
    by (simp add: app_with_def fresh_def)
  have q: "\<And>p w. bot_query ?x () p w = (Inr ''Free of duty.'', Suc w)"
    by (simp add: app_with_def)
  note chat = no_key_serves_once_bot_is_made
    [where x = ?x and s = fresh and ?w1.0 = 1 and ?w2.0 = 2 and ?w3.0 = 2 and b = "()"
       and ?w4.0 = 3 and inp = "ask ''duty on donkeys?''"]
  note page = no_key_serves_once_bot_is_made
    [where x = ?x and s = fresh and ?w1.0 = 1 and ?w2.0 = 2 and ?w3.0 = 2 and b = "()"
       and ?w4.0 = 3 and inp = "press 3"]
  have c: "fst (main ?x (ask ''duty on donkeys?'') fresh) = Inr Completed"
    "bot_cache (snd (main ?x (ask ''duty on donkeys?'') fresh)) = Some (Some (), None)"
    "world (snd (main ?x (ask ''duty on donkeys?'') fresh)) = 4"
    "messages (snd (main ?x (ask ''duty on donkeys?'') fresh)) =
       Some [\<lparr>role = ''user'', content = ''duty on donkeys?''\<rparr>,
             \<lparr>role = ''assistant'', content = ''Free of duty.''\<rparr>]"
    using chat key made by (simp_all add: q ask_def fresh_def)
  have k: "3 < length sample_questions" "button (press 3) 3" "\<forall>j<3. \<not> button (press 3) j"
    "selected_mode (press 3) = ''Sample Questions''"
    by (simp_all add: sample_questions_def press_def)
  have p: "St ''markdown'' (response_box ''Free of duty.'') \<in>
     set (drop (length (out fresh)) (out (snd (main ?x (press 3) fresh))))"
    using page key made k by (auto simp add: q)
  from key cache create c p show ?thesis by simp
qed

text \<open>
  Counterexample to C5 as stated: no API key, and \<^verbatim>\<open>create_tariff_bot()\<close> raises because
  there is none. \<open>check_openai_setup\<close> returns \<open>False\<close>, \<open>initialize_bot\<close> returns the
  error text, and \<open>main\<close> draws it and stops: the submitted prompt is not answered and
  the transcript stays empty.
\<close>

theorem no_key_can_stop:
  "check_openai_setup
     (app_with (Inl (Exception ''The api_key client option must be set'')) (\<lambda>q. Inr ''Free of duty.''))
     fresh = (Inr False, fresh) \<and>
   main (app_with (Inl (Exception ''The api_key client option must be set'')) (\<lambda>q. Inr ''Free of duty.''))
     (ask ''duty on donkeys?'') fresh =
     (Inr Stopped,
      \<lparr>world = 3,
       out = [St ''markdown'' ''TariffBot'',
              St ''markdown'' ''Intelligent Assistant with Real LLM Responses'',
              St ''markdown''
                ''OpenAI API Key Not Found ... The system will use basic text extraction as fallback.'',
              St ''spinner'' ''Initializing TariffBot with LLM...'',
              St ''error'' ''Failed to initialize TariffBot: The api_key client option must be set'',
              St ''stop'' []],
       messages = None,
       bot_cache = Some (None, Some ''The api_key client option must be set'')\<rparr>)"
  by (simp add: main_def initialize_bot_def initialize_bot_body_def check_openai_setup_def st_def
        app_with_def fresh_def ask_def
        bnd_def ret_def try_except_def Spec2Isabelle.ext_def read_world_def emit_def)

text \<open>
  Claim C8 at its failing input. \<^verbatim>\<open>create_tariff_bot()\<close> raises an exception whose text
  is empty, in a first run, with the chat page selected and a prompt submitted.
  \<open>initialize_bot\<close> returns \<^verbatim>\<open>(None, "")\<close>, the test \<^verbatim>\<open>if error:\<close> of \<open>main\<close> takes the empty
  text for no error, nothing is drawn by \<^verbatim>\<open>st.error\<close> and \<^verbatim>\<open>st.stop\<close> is not called: the
  run completes, and the chat page answers the prompt with the message made from the
  \<open>AttributeError\<close> of \<^verbatim>\<open>None.query\<close>.
\<close>

theorem main_continues_after_empty_error:
  "fst (initialize_bot (app_with (Inl (Exception [])) (\<lambda>q. Inr ''Free of duty.'')) fresh)
     = Inr (None, Some []) \<and>
   fst (main (app_with (Inl (Exception [])) (\<lambda>q. Inr ''Free of duty.''))
          (ask ''duty on donkeys?'') fresh) = Inr Completed \<and>
   messages (snd (main (app_with (Inl (Exception [])) (\<lambda>q. Inr ''Free of duty.''))
                    (ask ''duty on donkeys?'') fresh)) =
     Some [\<lparr>role = ''user'', content = ''duty on donkeys?''\<rparr>,
           \<lparr>role = ''assistant'',
            content = ''I encountered an error processing your question: 'NoneType' object has no attribute 'query''
                      @ [CHR 0x27]\<rparr>] \<and>
   St ''stop'' [] \<notin> set (out (snd (main (app_with (Inl (Exception [])) (\<lambda>q. Inr ''Free of duty.''))
                                       (ask ''duty on donkeys?'') fresh))) \<and>
   (\<forall>m. St ''error'' m \<notin> set (out (snd (main (app_with (Inl (Exception []))
                                                 (\<lambda>q. Inr ''Free of duty.''))
                                       (ask ''duty on donkeys?'') fresh))))"
  by (simp add: main_def chat_interface_def initialize_bot_def initialize_bot_body_def
        check_openai_setup_def query_def append_message_def st_def
        app_with_def fresh_def ask_def
        bnd_def ret_def raise_def try_except_def Spec2Isabelle.ext_def read_world_def emit_def)

section \<open>Properties of the orchestrator of the specification\<close>

lemma informational_provenance: "provenance (fst (informational c q gs)) \<noteq> database"
  by (simp add: informational_def Let_def split: prod.split sum.split list.split)

text \<open>
  Claim C3. When a query is routed to the Database Accessor and no record matches, the
  orchestrator answers as the informational path (retriever and generator) answers: the
  answer is the one \<open>informational\<close> gives, and its provenance is not \<open>database\<close>.
\<close>

theorem answer_falls_through:
  assumes "structured_lookup c q" and "search c q (search_limit c) = []"
  shows "answer c q gs = informational c q gs \<and> provenance (fst (answer c q gs)) \<noteq> database"
  using assms informational_provenance [of c q gs] by (simp add: answer_def)

text \<open>Witness of C3: a lookup that matches nothing, with a generator that refuses the
  credential. The answer is the best passage, with provenance \<open>fallback\<close>, after one call
  to the generator.\<close>

theorem answer_falls_through_witness:
  "structured_lookup (scripted [Inl AuthenticationError]) ''HTS code for unicorns'' \<and>
   search (scripted [Inl AuthenticationError]) ''HTS code for unicorns''
     (search_limit (scripted [Inl AuthenticationError])) = [] \<and>
   answer (scripted [Inl AuthenticationError]) ''HTS code for unicorns'' (0, 0) =
     (\<lparr>text = ''General Note 3'', provenance = fallback\<rparr>, (1, 1))"
  using answer_falls_through
    [of "scripted [Inl AuthenticationError]" "''HTS code for unicorns''" "(0, 0)"]
  by (simp add: scripted_def informational_def generator_wrapper_def call_generator_def)

text \<open>
  Claim C4. For one request the wrapper issues at most two calls to the Answer
  Generator. When the first call fails by a transient failure it issues exactly one
  more; when the first call fails by a terminal failure (authentication or quota) it
  issues no other and hands the failure on; when the first call answers it issues no
  other.
\<close>

theorem generator_wrapper_calls:
  "snd (snd (generator_wrapper c q passages (g, calls))) \<le> calls + 2 \<and>
   (\<forall>f. fst (generate c q (take (max_context c) (concat (map passage_text passages))) g) = Inl f \<and>
        transient f \<longrightarrow>
        snd (snd (generator_wrapper c q passages (g, calls))) = calls + 2) \<and>
   (\<forall>f. fst (generate c q (take (max_context c) (concat (map passage_text passages))) g) = Inl f \<and>
        \<not> transient f \<longrightarrow>
        snd (snd (generator_wrapper c q passages (g, calls))) = calls + 1 \<and>
        fst (generator_wrapper c q passages (g, calls)) = Inl f) \<and>
   (\<forall>t. fst (generate c q (take (max_context c) (concat (map passage_text passages))) g) = Inr t
        \<longrightarrow>
        snd (snd (generator_wrapper c q passages (g, calls))) = calls + 1 \<and>
        fst (generator_wrapper c q passages (g, calls)) = Inr t)"
  by (auto simp add: generator_wrapper_def call_generator_def Let_def
      split: prod.splits sum.splits)

text \<open>Witness of C4: a generator that times out once and then answers is called twice;
  a generator that reports an exhausted quota is called once.\<close>

theorem generator_wrapper_calls_witness:
  "fst (generate (scripted [Inl Timeout, Inr ''Free of duty'']) ''q'' ''General Note 3'' 0)
     = Inl Timeout \<and>
   transient Timeout \<and>
   generator_wrapper (scripted [Inl Timeout, Inr ''Free of duty'']) ''q''
     [\<lparr>passage_text = ''General Note 3'', source_offset = 0\<rparr>] (0, 0)
     = (Inr ''Free of duty'', (2, 2)) \<and>
   fst (generate (scripted [Inl QuotaError, Inr ''Free of duty'']) ''q'' ''General Note 3'' 0)
     = Inl QuotaError \<and>
   \<not> transient QuotaError \<and>
   generator_wrapper (scripted [Inl QuotaError, Inr ''Free of duty'']) ''q''
     [\<lparr>passage_text = ''General Note 3'', source_offset = 0\<rparr>] (0, 0)
     = (Inl QuotaError, (1, 1))"
  using generator_wrapper_calls [of "scripted [Inl Timeout, Inr ''Free of duty'']" "''q''"
      "[\<lparr>passage_text = ''General Note 3'', source_offset = 0\<rparr>]" 0 0]
    generator_wrapper_calls [of "scripted [Inl QuotaError, Inr ''Free of duty'']" "''q''"
      "[\<lparr>passage_text = ''General Note 3'', source_offset = 0\<rparr>]" 0 0]
  by (simp add: scripted_def generator_wrapper_def call_generator_def)

end
